theory Spec2Isabelle
  imports Main "HOL-Library.AList"
begin

section \<open>Python values, dictionaries and exceptions\<close>

text \<open>
  The change-set calculator of \<^verbatim>\<open>rm_bridge/changeset/change.py\<close> builds its actions as
  nested Python dictionaries. A dictionary is modelled as an association list in insertion
  order: \<^const>\<open>map_of\<close> is the lookup, \<^const>\<open>AList.update\<close> is the item assignment
  \<^verbatim>\<open>d[k] = v\<close> (an existing key keeps its place, a new key goes to the end) and
  \<^const>\<open>AList.delete\<close> is \<^verbatim>\<open>del d[k]\<close>.

  A \<^verbatim>\<open>decl.UUIDReference\<close> is \<open>VRef\<close> of the uuid it holds and
  \<^verbatim>\<open>decl.Promise(label)\<close> is \<open>VPromise\<close>. A float is carried by its bit pattern
  and a datetime by its timestamp; only their identity is used.
\<close>

text \<open>
  A raw attribute value of the snapshot, \<^verbatim>\<open>act.Primitive | None\<close>: the value types of
  \<^verbatim>\<open>_ATTR_VALUE_DEFAULT_MAP\<close> (\<^verbatim>\<open>str\<close>, \<^verbatim>\<open>list\<close> of \<^verbatim>\<open>str\<close>,
  \<^verbatim>\<open>datetime.datetime\<close>, \<^verbatim>\<open>int\<close>, \<^verbatim>\<open>float\<close>, \<^verbatim>\<open>bool\<close>) and \<^verbatim>\<open>None\<close>.
\<close>

datatype raw =
    RNone
  | RStr string
  | RList "string list"
  | RDate int
  | RInt int
  | RFloat int
  | RBool bool

text \<open>
  The exceptions the module can raise. \<^verbatim>\<open>act.InvalidFieldValue\<close> is raised with the message
  \<^verbatim>\<open>f"Broken snapshot: Invalid field {key} '{value!r}' for {name}"\<close>; the model keeps
  the three parts of the message: the storage key, the offending value and the attribute name.
\<close>

datatype error =
    KeyError
  | ValueError
  | AttributeError
  | TypeError
  | AssertionError
  | InvalidFieldValue string raw string

datatype pyval =
    VNone
  | VBool bool
  | VInt int
  | VFloat int
  | VDate int
  | VStr string
  | VList "pyval list"
  | VDict "(string \<times> pyval) list"
  | VRef string
  | VPromise string

type_synonym dict = "(string \<times> pyval) list"

text \<open>
  The constructor \<^verbatim>\<open>decl.UUIDReference\<close> of \<^verbatim>\<open>capellambse\<close> checks its argument and
  raises \<^verbatim>\<open>ValueError("Malformed !uuid ...")\<close> unless it is a well-formed uuid string.
  The uuid of a model element is well-formed, so \<^verbatim>\<open>decl.UUIDReference(x.uuid)\<close> is the
  reference \<open>VRef\<close> of that uuid; a model element itself is no string, so
  \<^verbatim>\<open>decl.UUIDReference(x)\<close> raises.
\<close>

datatype reference_arg = UuidOf string | ElementItself string

fun UUIDReference :: "reference_arg \<Rightarrow> error + pyval" where
  "UUIDReference (UuidOf u) = Inr (VRef u)"
| "UUIDReference (ElementItself u) = Inl ValueError"

text \<open>\<^verbatim>\<open>isinstance(value, cabc.Mapping) and value\<close>\<close>

fun is_nonempty_mapping :: "pyval \<Rightarrow> bool" where
  "is_nonempty_mapping (VDict (x # xs)) = True"
| "is_nonempty_mapping _ = False"

fun mapping_items :: "pyval \<Rightarrow> dict" where
  "mapping_items (VDict d) = d"
| "mapping_items _ = []"

text \<open>Every dictionary inside a value has pairwise different keys, as a Python dict has.\<close>

fun unique_keys :: "pyval \<Rightarrow> bool" where
  "unique_keys (VDict d) = (distinct (map fst d) \<and> (\<forall>p \<in> set d. unique_keys (snd p)))"
| "unique_keys (VList xs) = (\<forall>x \<in> set xs. unique_keys x)"
| "unique_keys _ = True"

section \<open>The action assembler: \<^verbatim>\<open>_deep_update\<close>\<close>

text \<open>
  \<^verbatim>\<open>
  def _deep_update(source, overrides):
      for key, value in overrides.items():
          if isinstance(value, cabc.Mapping) and value:
              update = source.get(key, {})
              _deep_update(update, value)
          else:
              update = overrides[key]
          source[key] = update
  \<close>
  The function mutates \<open>source\<close> in place and returns nothing; the model returns the
  dictionary \<open>source\<close> has become together with the exception that stopped the loop, if
  any. When \<open>source[key]\<close> exists and is no mapping, the inner call fails on its first
  item: \<^verbatim>\<open>update.get\<close> raises AttributeError if that item is itself a non-empty mapping,
  otherwise \<^verbatim>\<open>update[key] = ...\<close> raises TypeError. An inner call that fails on a fresh
  \<^verbatim>\<open>{}\<close> leaves \<open>source\<close> as it was; one that fails on \<open>source[key]\<close> has already
  changed that dictionary. \<open>source\<close> and \<open>overrides\<close> share no mutable object (every
  call site passes a freshly built fragment).
\<close>

lemma size_mapping_items:
  "is_nonempty_mapping v \<Longrightarrow> size_list (size_prod (\<lambda>_. 0) size) (mapping_items v) < size v"
  by (cases v rule: is_nonempty_mapping.cases) auto

function deep_update :: "dict \<Rightarrow> dict \<Rightarrow> dict \<times> error option" where
  "deep_update source [] = (source, None)"
| "deep_update source ((key, v) # rest) =
     (if is_nonempty_mapping v then
        (case map_of source key of
           None \<Rightarrow>
             (case deep_update [] (mapping_items v) of
                (u, None) \<Rightarrow> deep_update (AList.update key (VDict u) source) rest
              | (u, Some e) \<Rightarrow> (source, Some e))
         | Some (VDict d) \<Rightarrow>
             (case deep_update d (mapping_items v) of
                (u, None) \<Rightarrow> deep_update (AList.update key (VDict u) source) rest
              | (u, Some e) \<Rightarrow> (AList.update key (VDict u) source, Some e))
         | Some other \<Rightarrow>
             (source, Some (if is_nonempty_mapping (snd (hd (mapping_items v)))
                            then AttributeError else TypeError)))
      else deep_update (AList.update key v source) rest)"
  by pat_completeness auto
termination
  by (relation "measure (\<lambda>(s, ov). size_list (size_prod (\<lambda>_. 0) size) ov)")
     (auto dest: size_mapping_items)

text \<open>\<^verbatim>\<open>source.get(key, {})\<close>\<close>

definition get_or_empty :: "dict \<Rightarrow> string \<Rightarrow> pyval" where
  "get_or_empty source key = (case map_of source key of None \<Rightarrow> VDict [] | Some w \<Rightarrow> w)"

section \<open>The snapshot\<close>

text \<open>
  The tracker snapshot is the mapping \<^verbatim>\<open>TrackerChange.tracker\<close>. Mappings of the snapshot
  are association lists in the order of the YAML document. An optional key of a mapping is
  an \<open>option\<close>: \<^verbatim>\<open>d[k]\<close> on an absent key raises KeyError, \<^verbatim>\<open>d.get(k)\<close> gives
  \<^verbatim>\<open>None\<close>. Identifiers are \<^verbatim>\<open>RMIdentifier\<close>, a \<^verbatim>\<open>NewType\<close> of \<^verbatim>\<open>str\<close>, so
  \<^verbatim>\<open>str(item["id"])\<close> is the identifier itself.
\<close>

type_synonym rmid = string
type_synonym uuid = string

record attr_def_spec =
  ads_type :: "string option"
  ads_multi_values :: "bool option"

record req_type_spec =
  rts_long_name :: "string option"
  rts_attributes :: "(string \<times> attr_def_spec) list option"

datatype item =
  Item (i_id: rmid)
       (i_long_name: "string option")
       (i_text: "string option")
       (i_type: "rmid option")
       (i_attributes: "(string \<times> raw) list option")
       (i_children: "item list option")

record tracker =
  data_types :: "(string \<times> string list) list"
  requirement_types :: "(rmid \<times> req_type_spec) list"
  items :: "item list"

section \<open>The live model\<close>

text \<open>
  The elements of the \<^verbatim>\<open>capellambse\<close> model that the calculator reads. An element is
  identified by its uuid. \<open>wi_parent\<close> is the uuid of the element that owns a work item;
  \<open>wi_is_folder\<close> is \<^verbatim>\<open>isinstance(req, reqif.RequirementsFolder)\<close>; \<open>av_is_enum\<close> is
  \<^verbatim>\<open>isinstance(attr, reqif.EnumerationValueAttribute)\<close>, whose \<open>av_values\<close> are the
  long names of the enumeration values it refers to; \<open>ad_is_enum\<close> tells an
  \<^verbatim>\<open>AttributeDefinitionEnumeration\<close> from an \<^verbatim>\<open>AttributeDefinition\<close> and
  \<open>ad_data_type\<close> is the long name of its data type definition, if it has one. Only an
  \<^verbatim>\<open>AttributeDefinitionEnumeration\<close> has the attribute \<^verbatim>\<open>multi_valued\<close>
  (\<open>ad_multi_valued\<close>); reading it from an \<^verbatim>\<open>AttributeDefinition\<close> raises
  AttributeError. \<open>wi_text\<close> is \<^verbatim>\<open>None\<close> for a work item without text.
\<close>

record enum_value =
  ev_uuid :: uuid
  ev_long_name :: string

record data_type_def =
  dtd_uuid :: uuid
  dtd_long_name :: string
  dtd_values :: "enum_value list"

record attr_def =
  ad_uuid :: uuid
  ad_identifier :: rmid
  ad_long_name :: string
  ad_is_enum :: bool
  ad_data_type :: "string option"
  ad_multi_valued :: bool

record req_type =
  rt_uuid :: uuid
  rt_identifier :: rmid
  rt_long_name :: string
  rt_attribute_definitions :: "attr_def list"

record types_folder =
  tf_uuid :: uuid
  tf_data_type_definitions :: "data_type_def list"
  tf_requirement_types :: "req_type list"

record attr_value =
  av_uuid :: uuid
  av_definition :: "attr_def option"
  av_is_enum :: bool
  av_values :: "string list"
  av_value :: raw

record work_item =
  wi_uuid :: uuid
  wi_identifier :: rmid
  wi_is_folder :: bool
  wi_parent :: uuid
  wi_long_name :: string
  wi_text :: "string option"
  wi_type :: "req_type option"
  wi_attributes :: "attr_value list"

text \<open>
  \<^verbatim>\<open>elements.by_<attr>(value, single=True)\<close> of \<^verbatim>\<open>capellambse\<close>: the one element
  that matches; KeyError when none or several do.
\<close>

definition by_single :: "('a \<Rightarrow> bool) \<Rightarrow> 'a list \<Rightarrow> error + 'a" where
  "by_single P xs = (case filter P xs of [x] \<Rightarrow> Inr x | _ \<Rightarrow> Inl KeyError)"

section \<open>The calculator's environment\<close>

text \<open>
  The read-only part of a \<^verbatim>\<open>TrackerChange\<close> object: the snapshot, the requirements
  module, its types folder (\<^verbatim>\<open>self.reqt_folder\<close>, \<^verbatim>\<open>None\<close> when the module has none)
  and the navigation of the live model.

  \<open>children_of u slot\<close> is \<^verbatim>\<open>getattr(x, slot)\<close> for the module or folder \<open>x\<close> with uuid
  \<open>u\<close> and \<open>slot\<close> one of \<^verbatim>\<open>"folders"\<close> and \<^verbatim>\<open>"requirements"\<close>.

  \<open>set_order xs\<close> is the order in which Python iterates \<^verbatim>\<open>set(xs)\<close>; the language
  leaves it open, so it is a parameter.

  Modelled from the spec: the lookups of \<^verbatim>\<open>find.ReqFinder\<close> (the class is not among the
  sources). By the spec's sections 4.2 and 6 a lookup is pure, resolves an entity by a
  stable key under a scope and yields the entity or nothing. The calculator takes the five
  lookups it calls as parameters: \<open>work_item_by_identifier\<close>,
  \<open>reqtype_by_identifier\<close> (below the types folder),
  \<open>enum_data_type_definition_by_long_name\<close> (below the types folder),
  \<open>enum_value_by_long_name\<close> (below the module) and
  \<open>attribute_definition_by_identifier\<close>, which gets the type name it is called with,
  the identifier and the uuid of the scope (\<^verbatim>\<open>None\<close> when the scope is an absent types
  folder).
\<close>

record env =
  tracker :: tracker
  req_module :: uuid
  reqt_folder :: "types_folder option"
  children_of :: "uuid \<Rightarrow> string \<Rightarrow> work_item list"
  set_order :: "string list \<Rightarrow> string list"
  work_item_by_identifier :: "rmid \<Rightarrow> work_item option"
  reqtype_by_identifier :: "rmid \<Rightarrow> req_type option"
  enum_data_type_definition_by_long_name :: "string \<Rightarrow> data_type_def option"
  enum_value_by_long_name :: "string \<Rightarrow> enum_value option"
  attribute_definition_by_identifier :: "string \<Rightarrow> string \<Rightarrow> uuid option \<Rightarrow> attr_def option"

text \<open>\<^verbatim>\<open>self.data_type_definitions\<close> and \<^verbatim>\<open>self.requirement_types\<close>\<close>

definition data_type_definitions :: "env \<Rightarrow> (string \<times> string list) list" where
  "data_type_definitions E = data_types (tracker E)"

definition requirement_types_of :: "env \<Rightarrow> (rmid \<times> req_type_spec) list" where
  "requirement_types_of E = requirement_types (tracker E)"

section \<open>Constants of the module\<close>

definition REQ_TYPES_FOLDER_NAME :: string where
  "REQ_TYPES_FOLDER_NAME = ''Types''"

definition CACHEKEY_TYPES_FOLDER_IDENTIFIER :: string where
  "CACHEKEY_TYPES_FOLDER_IDENTIFIER = ''-2''"

definition ATTR_BLACKLIST :: "(string \<times> raw) list" where
  "ATTR_BLACKLIST = [(''Type'', RStr ''Folder'')]"

datatype pytype = TStr | TList | TDatetime | TInt | TFloat | TBool

definition ATTR_VALUE_DEFAULT_MAP :: "(string \<times> pytype) list" where
  "ATTR_VALUE_DEFAULT_MAP =
     [(''String'', TStr), (''Enum'', TList), (''Date'', TDatetime),
      (''Integer'', TInt), (''Float'', TFloat), (''Boolean'', TBool)]"

text \<open>\<^verbatim>\<open>isinstance(value, cls)\<close>; \<^verbatim>\<open>bool\<close> is a subclass of \<^verbatim>\<open>int\<close>.\<close>

fun isinstance :: "raw \<Rightarrow> pytype \<Rightarrow> bool" where
  "isinstance (RStr _) TStr = True"
| "isinstance (RList _) TList = True"
| "isinstance (RDate _) TDatetime = True"
| "isinstance (RInt _) TInt = True"
| "isinstance (RBool _) TInt = True"
| "isinstance (RFloat _) TFloat = True"
| "isinstance (RBool _) TBool = True"
| "isinstance _ _ = False"

text \<open>A raw value as it stands in an action.\<close>

fun pv :: "raw \<Rightarrow> pyval" where
  "pv RNone = VNone"
| "pv (RStr s) = VStr s"
| "pv (RList xs) = VList (map VStr xs)"
| "pv (RDate d) = VDate d"
| "pv (RInt i) = VInt i"
| "pv (RFloat f) = VFloat f"
| "pv (RBool b) = VBool b"

text \<open>\<^verbatim>\<open>str.lower\<close> on ASCII letters.\<close>

definition lower_char :: "char \<Rightarrow> char" where
  "lower_char c =
     (let n = of_char c :: nat in if 65 \<le> n \<and> n \<le> 90 then char_of (n + 32) else c)"

definition lower :: "string \<Rightarrow> string" where
  "lower s = map lower_char s"

section \<open>The value validator\<close>

text \<open>
  \<^verbatim>\<open>
  def check_attribute_value_is_valid(self, name, value, req_type_id):
      reqtype_attr_defs = self.requirement_types[req_type_id]["attributes"]
      deftype = reqtype_attr_defs[name]["type"]
      matches_type = isinstance(value, _ATTR_VALUE_DEFAULT_MAP[deftype])
      if deftype == "Enum":
          options = self.data_type_definitions[name]
          is_faulty = not matches_type or not set(value) & set(options)
          key = "values"
      else:
          is_faulty = not matches_type
          key = "value"
      if is_faulty:
          raise act.InvalidFieldValue(...)
      return AttributeValueBuilder(deftype, key, value)
  \<close>
  The function reads the snapshot only. \<open>declared_kind\<close> is its first two lines: the
  \<^verbatim>\<open>"type"\<close> the snapshot declares for the attribute on the requirement type; each
  absent key raises KeyError.
\<close>

definition declared_kind :: "env \<Rightarrow> rmid \<Rightarrow> string \<Rightarrow> error + string" where
  "declared_kind E req_type_id name =
     (case map_of (requirement_types_of E) req_type_id of
        None \<Rightarrow> Inl KeyError
      | Some rt \<Rightarrow>
          (case rts_attributes rt of
             None \<Rightarrow> Inl KeyError
           | Some reqtype_attr_defs \<Rightarrow>
               (case map_of reqtype_attr_defs name of
                  None \<Rightarrow> Inl KeyError
                | Some adef \<Rightarrow>
                    (case ads_type adef of
                       None \<Rightarrow> Inl KeyError
                     | Some deftype \<Rightarrow> Inr deftype))))"

text \<open>The literals of a list value: \<^verbatim>\<open>set(value)\<close>.\<close>

fun literals :: "raw \<Rightarrow> string list" where
  "literals (RList xs) = xs"
| "literals _ = []"

definition check_attribute_value_is_valid ::
  "env \<Rightarrow> string \<Rightarrow> raw \<Rightarrow> rmid \<Rightarrow> error + (string \<times> string \<times> raw)" where
  "check_attribute_value_is_valid E name v req_type_id =
     (case declared_kind E req_type_id name of
        Inl e \<Rightarrow> Inl e
      | Inr deftype \<Rightarrow>
          (case map_of ATTR_VALUE_DEFAULT_MAP deftype of
             None \<Rightarrow> Inl KeyError
           | Some cls \<Rightarrow>
               (let matches_type = isinstance v cls in
                if deftype = ''Enum'' then
                  (case map_of (data_type_definitions E) name of
                     None \<Rightarrow> Inl KeyError
                   | Some options \<Rightarrow>
                       (let is_faulty =
                              (\<not> matches_type \<or> \<not> list_ex (\<lambda>x. x \<in> set options) (literals v))
                        in if is_faulty then Inl (InvalidFieldValue ''values'' v name)
                           else Inr (deftype, ''values'', v)))
                else
                  (if \<not> matches_type then Inl (InvalidFieldValue ''value'' v name)
                   else Inr (deftype, ''value'', v)))))"

section \<open>The attribute blacklist\<close>

text \<open>
  \<^verbatim>\<open>
  def _blacklisted(name, value):
      if value is None:
          return False
      if not isinstance(value, cabc.Iterable) or isinstance(value, str):
          return (name, value) in _ATTR_BLACKLIST
      return all((_blacklisted(name, val) for val in value))
  \<close>
  The only iterable raw value that is no string is a list of strings.
\<close>

fun blacklisted :: "string \<Rightarrow> raw \<Rightarrow> bool" where
  "blacklisted name RNone = False"
| "blacklisted name (RList vals) = list_all (\<lambda>val. (name, RStr val) \<in> set ATTR_BLACKLIST) vals"
| "blacklisted name v = ((name, v) \<in> set ATTR_BLACKLIST)"

section \<open>Creation payloads of the type system\<close>

text \<open>The first exception of a list of results, as a comprehension or \<^verbatim>\<open>list(...)\<close> raises it.\<close>

fun collect :: "(error + 'a) list \<Rightarrow> error + 'a list" where
  "collect [] = Inr []"
| "collect (r # rs) =
     (case r of
        Inl e \<Rightarrow> Inl e
      | Inr x \<Rightarrow> (case collect rs of Inl e \<Rightarrow> Inl e | Inr xs \<Rightarrow> Inr (x # xs)))"

text \<open>
  \<^verbatim>\<open>
  def data_type_create_action(self, name, values):
      type = "EnumerationDataTypeDefinition"
      enum_values = [
          {"long_name": value, "promise_id": f"EnumValue {name} {value}"}
          for value in values
      ]
      return {"long_name": name, "values": enum_values,
              "promise_id": f"{type} {name}", "_type": type}
  \<close>
\<close>

definition data_type_create_action :: "string \<Rightarrow> string list \<Rightarrow> dict" where
  "data_type_create_action name vals =
     [(''long_name'', VStr name),
      (''values'',
         VList (map (\<lambda>v. VDict [(''long_name'', VStr v),
                                (''promise_id'', VStr (''EnumValue '' @ name @ '' '' @ v))])
                    vals)),
      (''promise_id'', VStr (''EnumerationDataTypeDefinition '' @ name)),
      (''_type'', VStr ''EnumerationDataTypeDefinition'')]"

text \<open>
  \<^verbatim>\<open>attribute_definition_create_action\<close>: the identifier of an attribute definition is
  \<^verbatim>\<open>f"{name} {req_type_id}"\<close>; for the kind \<^verbatim>\<open>"Enum"\<close> the class is
  \<^verbatim>\<open>AttributeDefinitionEnumeration\<close> and the payload refers to the data type definition
  of the same name, by uuid when the lookup finds it and by promise otherwise.
\<close>

definition attribute_definition_create_action ::
  "env \<Rightarrow> string \<Rightarrow> attr_def_spec \<Rightarrow> rmid \<Rightarrow> error + dict" where
  "attribute_definition_create_action E name item req_type_id =
     (let identifier = name @ '' '' @ req_type_id;
          base = [(''long_name'', VStr name), (''identifier'', VStr identifier)]
      in case ads_type item of
           None \<Rightarrow> Inl KeyError
         | Some ty \<Rightarrow>
             (if ty = ''Enum'' then
                (let data_type_ref =
                       (case enum_data_type_definition_by_long_name E name of
                          None \<Rightarrow> VPromise (''EnumerationDataTypeDefinition '' @ name)
                        | Some etdef \<Rightarrow> VRef (dtd_uuid etdef))
                 in Inr (base @
                      [(''data_type'', data_type_ref),
                       (''multi_valued'', VBool (ads_multi_values item \<noteq> None)),
                       (''_type'', VStr ''AttributeDefinitionEnumeration''),
                       (''promise_id'',
                          VStr (''AttributeDefinitionEnumeration'' @ '' '' @ identifier))]))
              else
                Inr (base @
                      [(''_type'', VStr ''AttributeDefinition''),
                       (''promise_id'', VStr (''AttributeDefinition'' @ '' '' @ identifier))])))"

text \<open>
  \<^verbatim>\<open>
  def requirement_type_create_action(self, identifier, req_type):
      return {
          "identifier": identifier,
          "long_name": req_type["long_name"],
          "promise_id": f"RequirementType {identifier}",
          "attribute_definitions": [
              self.attribute_definition_create_action(name, adef, identifier)
              for name, adef in req_type.get("attributes", {}).items()
          ],
      }
  \<close>
\<close>

definition requirement_type_create_action ::
  "env \<Rightarrow> rmid \<Rightarrow> req_type_spec \<Rightarrow> error + dict" where
  "requirement_type_create_action E identifier req_type =
     (case rts_long_name req_type of
        None \<Rightarrow> Inl KeyError
      | Some long_name \<Rightarrow>
          (case collect (map (\<lambda>(name, adef).
                                attribute_definition_create_action E name adef identifier)
                             (case rts_attributes req_type of None \<Rightarrow> [] | Some a \<Rightarrow> a)) of
             Inl e \<Rightarrow> Inl e
           | Inr adefs \<Rightarrow>
               Inr [(''identifier'', VStr identifier),
                    (''long_name'', VStr long_name),
                    (''promise_id'', VStr (''RequirementType '' @ identifier)),
                    (''attribute_definitions'', VList (map VDict adefs))]))"

text \<open>
  \<^verbatim>\<open>
  def requirement_types_folder_create_action(self):
      data_type_defs = self.yield_data_type_definition_create_actions()
      req_types = self.yield_requirement_type_create_actions()
      reqt_folder = {
          "long_name": REQ_TYPES_FOLDER_NAME,
          "identifier": CACHEKEY_TYPES_FOLDER_IDENTIFIER,
          "data_type_definitions": list(data_type_defs),
          "requirement_types": list(req_types),
      }
      return {
          "parent": decl.UUIDReference(self.req_module.uuid),
          "extend": {"requirement_types_folders": [reqt_folder]},
      }
  \<close>
\<close>

definition yield_data_type_definition_create_actions :: "env \<Rightarrow> dict list" where
  "yield_data_type_definition_create_actions E =
     map (\<lambda>(name, vals). data_type_create_action name vals) (data_type_definitions E)"

definition yield_requirement_type_create_actions :: "env \<Rightarrow> error + dict list" where
  "yield_requirement_type_create_actions E =
     collect (map (\<lambda>(identifier, req_type). requirement_type_create_action E identifier req_type)
                  (requirement_types_of E))"

definition requirement_types_folder_create_action :: "env \<Rightarrow> error + dict" where
  "requirement_types_folder_create_action E =
     (case yield_requirement_type_create_actions E of
        Inl e \<Rightarrow> Inl e
      | Inr req_types \<Rightarrow>
          Inr [(''parent'', VRef (req_module E)),
               (''extend'', VDict [(''requirement_types_folders'',
                  VList [VDict
                    [(''long_name'', VStr REQ_TYPES_FOLDER_NAME),
                     (''identifier'', VStr CACHEKEY_TYPES_FOLDER_IDENTIFIER),
                     (''data_type_definitions'',
                        VList (map VDict (yield_data_type_definition_create_actions E))),
                     (''requirement_types'', VList (map VDict req_types))]])])])"

section \<open>Creation payload of an attribute value\<close>

text \<open>
  \<^verbatim>\<open>attribute_value_create_action\<close>: the value is validated first. For the kind
  \<^verbatim>\<open>"Enum"\<close> every literal of the value becomes a reference to the enumeration value of
  that name, by uuid when the lookup finds it and otherwise by the promise
  \<^verbatim>\<open>f"EnumValue {name} {enum_name}"\<close>. The definition is looked up by the identifier
  \<^verbatim>\<open>f"{name} {req_type_id}"\<close> below the types folder and is referred to by uuid or by the
  promise \<^verbatim>\<open>f"{deftype} {attr_def_id}"\<close>. The payload stores
  \<^verbatim>\<open>values or builder.value\<close> under the storage key.
\<close>

definition attribute_value_create_action ::
  "env \<Rightarrow> string \<Rightarrow> raw \<Rightarrow> rmid \<Rightarrow> error + dict" where
  "attribute_value_create_action E name v req_type_id =
     (case check_attribute_value_is_valid E name v req_type_id of
        Inl e \<Rightarrow> Inl e
      | Inr (builder_deftype, builder_key, builder_value) \<Rightarrow>
          (if builder_deftype = ''Enum'' \<and> \<not> isinstance builder_value TList
           then Inl AssertionError
           else
             (let deftype = (if builder_deftype = ''Enum''
                             then ''AttributeDefinition'' @ ''Enumeration''
                             else ''AttributeDefinition'');
                  vals = (if builder_deftype = ''Enum''
                          then map (\<lambda>enum_name.
                                 case enum_value_by_long_name E enum_name of
                                   None \<Rightarrow> VPromise (''EnumValue '' @ name @ '' '' @ enum_name)
                                 | Some enumvalue \<Rightarrow> VRef (ev_uuid enumvalue))
                               (literals builder_value)
                          else []);
                  attr_def_id = name @ '' '' @ req_type_id;
                  definition_ref =
                    (case attribute_definition_by_identifier E deftype attr_def_id
                            (map_option tf_uuid (reqt_folder E)) of
                       None \<Rightarrow> VPromise (deftype @ '' '' @ attr_def_id)
                     | Some d \<Rightarrow> VRef (ad_uuid d))
              in Inr [(''_type'', VStr (lower builder_deftype)),
                      (''definition'', definition_ref),
                      (builder_key, if vals \<noteq> [] then VList vals else pv builder_value)])))"

section \<open>Reconciling the type system\<close>

text \<open>
  \<^verbatim>\<open>data_type_mod_action\<close>. \<open>data_type_mod_body\<close> is the body of its \<^verbatim>\<open>try\<close>; a
  KeyError of the body (the definition is not found, or found more than once) is answered
  with the creation payload. \<^verbatim>\<open>creations\<close> and \<^verbatim>\<open>deletions\<close> are Python sets;
  \<^verbatim>\<open>dtdef.values.by_long_name(*deletions)\<close> selects the live values with these names in
  the order of the model.
\<close>

definition data_type_mod_body ::
  "env \<Rightarrow> types_folder \<Rightarrow> string \<Rightarrow> string list \<Rightarrow> error + dict option" where
  "data_type_mod_body E tf name vals =
     (case by_single (\<lambda>d. dtd_long_name d = name) (tf_data_type_definitions tf) of
        Inl e \<Rightarrow> Inl e
      | Inr dtdef \<Rightarrow>
          (let base0 = [(''parent'', VRef (dtd_uuid dtdef))];
               mods = (if dtd_long_name dtdef \<noteq> name then [(''long_name'', VStr name)] else []);
               live = map ev_long_name (dtd_values dtdef);
               creations = filter (\<lambda>v. v \<notin> set live) vals;
               action = data_type_create_action (dtd_long_name dtdef) (set_order E creations);
               deletions = filter (\<lambda>n. n \<notin> set vals) live;
               base1 = (if creations \<noteq> []
                        then AList.update ''extend''
                               (VDict [(''values'', get_or_empty action ''values'')]) base0
                        else base0);
               base2 = (if mods \<noteq> [] then AList.update ''modify'' (VDict mods) base1 else base1);
               base3 = (if deletions \<noteq> []
                        then AList.update ''delete''
                               (VDict [(''values'',
                                  VList (map (\<lambda>ev. VRef (ev_uuid ev))
                                    (filter (\<lambda>ev. ev_long_name ev \<in> set deletions)
                                       (dtd_values dtdef))))]) base2
                        else base2)
           in if set (map fst base3) = {''parent''} then Inr None else Inr (Some base3)))"

definition data_type_mod_action ::
  "env \<Rightarrow> types_folder \<Rightarrow> string \<Rightarrow> string list \<Rightarrow> error + dict option" where
  "data_type_mod_action E tf name vals =
     (case data_type_mod_body E tf name vals of
        Inl KeyError \<Rightarrow> Inr (Some (data_type_create_action name vals))
      | r \<Rightarrow> r)"

text \<open>
  \<^verbatim>\<open>yield_data_type_definition_mod_actions\<close>: the types-folder action with the created
  and deleted definitions, when there are any, and then the modifications. An action of
  \<^verbatim>\<open>data_type_mod_action\<close> is a modification when it has the key \<^verbatim>\<open>"parent"\<close>.
\<close>

definition yield_data_type_definition_mod_actions ::
  "env \<Rightarrow> types_folder \<Rightarrow> error + dict list" where
  "yield_data_type_definition_mod_actions E tf =
     (let dt_defs_deletions =
            map (\<lambda>dtdef. VRef (dtd_uuid dtdef))
              (filter (\<lambda>dtdef. dtd_long_name dtdef \<notin> fst ` set (data_type_definitions E))
                 (tf_data_type_definitions tf))
      in case collect (map (\<lambda>(name, vals). data_type_mod_action E tf name vals)
                           (data_type_definitions E)) of
           Inl e \<Rightarrow> Inl e
         | Inr results \<Rightarrow>
             (let actions = List.map_filter id results;
                  dt_defs_modifications = filter (\<lambda>a. ''parent'' \<in> fst ` set a) actions;
                  dt_defs_creations = filter (\<lambda>a. ''parent'' \<notin> fst ` set a) actions;
                  base0 = [(''parent'', VRef (tf_uuid tf))];
                  base1 = (if dt_defs_creations \<noteq> []
                           then AList.update ''extend''
                                  (VDict [(''data_type_definitions'',
                                           VList (map VDict dt_defs_creations))]) base0
                           else base0);
                  base2 = (if dt_defs_deletions \<noteq> []
                           then AList.update ''delete''
                                  (VDict [(''data_type_definitions'', VList dt_defs_deletions)])
                                  base1
                           else base1)
              in Inr ((if is_nonempty_mapping (get_or_empty base2 ''extend'')
                          \<or> is_nonempty_mapping (get_or_empty base2 ''delete'')
                       then [base2] else []) @ dt_defs_modifications)))"

text \<open>
  \<^verbatim>\<open>attribute_definition_mod_action\<close>. The comparison
  \<^verbatim>\<open>attrdef.multi_valued != data.get("multi_values") is not None\<close> is chained: it holds
  when the two differ and the snapshot gives a value. Its first operand is evaluated in any
  case, and a live \<^verbatim>\<open>AttributeDefinition\<close> has no \<^verbatim>\<open>multi_valued\<close>: for the kind
  \<^verbatim>\<open>"Enum"\<close> it raises AttributeError, which the handler does not catch.
\<close>

definition attribute_definition_mod_body ::
  "req_type \<Rightarrow> string \<Rightarrow> attr_def_spec \<Rightarrow> error + dict option" where
  "attribute_definition_mod_body reqtype name data =
     (case by_single (\<lambda>a. ad_long_name a = name) (rt_attribute_definitions reqtype) of
        Inl e \<Rightarrow> Inl e
      | Inr attrdef \<Rightarrow>
          (let mods0 = (if ad_long_name attrdef \<noteq> name then [(''long_name'', VStr name)] else [])
           in case ads_type data of
                None \<Rightarrow> Inl KeyError
              | Some ty \<Rightarrow>
                  (if ty = ''Enum'' \<and> \<not> ad_is_enum attrdef then Inl AttributeError
                   else
                     (let mods1 =
                            (if ty = ''Enum'' \<and> ad_data_type attrdef \<noteq> Some name
                             then AList.update ''data_type'' (VStr name) mods0 else mods0);
                          mods2 =
                            (case ads_multi_values data of
                               Some mv \<Rightarrow>
                                 (if ty = ''Enum'' \<and> ad_multi_valued attrdef \<noteq> mv
                                  then AList.update ''multi_valued'' (VBool mv) mods1 else mods1)
                             | None \<Rightarrow> mods1)
                      in if mods2 = [] then Inr None
                         else Inr (Some [(''parent'', VRef (ad_uuid attrdef)),
                                         (''modify'', VDict mods2)])))))"

definition attribute_definition_mod_action ::
  "env \<Rightarrow> req_type \<Rightarrow> string \<Rightarrow> attr_def_spec \<Rightarrow> error + dict option" where
  "attribute_definition_mod_action E reqtype name data =
     (case attribute_definition_mod_body reqtype name data of
        Inl KeyError \<Rightarrow>
          map_sum id Some (attribute_definition_create_action E name data (rt_identifier reqtype))
      | r \<Rightarrow> r)"

text \<open>
  \<^verbatim>\<open>requirement_type_mod_action\<close>. \<^verbatim>\<open>_compare_simple_attributes(reqtype, item,
  filter=("attributes",))\<close> compares the one other key of a requirement type of the
  snapshot, \<^verbatim>\<open>"long_name"\<close>. A KeyError anywhere in the \<^verbatim>\<open>try\<close> is answered by
  yielding the creation payload of the requirement type.
\<close>

definition requirement_type_mod_body ::
  "env \<Rightarrow> types_folder \<Rightarrow> rmid \<Rightarrow> req_type_spec \<Rightarrow> error + dict list" where
  "requirement_type_mod_body E tf identifier item =
     (case by_single (\<lambda>r. rt_identifier r = identifier) (tf_requirement_types tf) of
        Inl e \<Rightarrow> Inl e
      | Inr reqtype \<Rightarrow>
          (let mods = (case rts_long_name item of
                         None \<Rightarrow> []
                       | Some ln \<Rightarrow> (if rt_long_name reqtype \<noteq> ln
                                     then [(''long_name'', VStr ln)] else []))
           in case rts_attributes item of
                None \<Rightarrow> Inl KeyError
              | Some attrs \<Rightarrow>
                  (let attr_defs_deletions =
                         map (\<lambda>adef. VRef (ad_uuid adef))
                           (filter (\<lambda>adef. ad_long_name adef \<notin> fst ` set attrs)
                              (rt_attribute_definitions reqtype))
                   in case collect (map (\<lambda>(name, data).
                                      attribute_definition_mod_action E reqtype name data) attrs) of
                        Inl e \<Rightarrow> Inl e
                      | Inr results \<Rightarrow>
                          (let actions = List.map_filter id results;
                               attr_defs_modifications =
                                 filter (\<lambda>a. ''parent'' \<in> fst ` set a) actions;
                               attr_defs_creations =
                                 filter (\<lambda>a. ''parent'' \<notin> fst ` set a) actions;
                               base0 = [(''parent'', VRef (rt_uuid reqtype))];
                               base1 = (if mods \<noteq> []
                                        then AList.update ''modify'' (VDict mods) base0 else base0);
                               base2 = (if attr_defs_creations \<noteq> []
                                        then AList.update ''extend''
                                               (VDict [(''attribute_definitions'',
                                                  VList (map VDict attr_defs_creations))]) base1
                                        else base1);
                               base3 = (if attr_defs_deletions \<noteq> []
                                        then AList.update ''delete''
                                               (VDict [(''attribute_definitions'',
                                                  VList attr_defs_deletions)]) base2
                                        else base2)
                           in Inr ((if set (map fst base3) \<noteq> {''parent''} then [base3] else [])
                                   @ attr_defs_modifications)))))"

definition requirement_type_mod_action ::
  "env \<Rightarrow> types_folder \<Rightarrow> rmid \<Rightarrow> req_type_spec \<Rightarrow> error + dict list" where
  "requirement_type_mod_action E tf identifier item =
     (case requirement_type_mod_body E tf identifier item of
        Inl KeyError \<Rightarrow>
          map_sum id (\<lambda>a. [a]) (requirement_type_create_action E identifier item)
      | r \<Rightarrow> r)"

definition yield_requirement_type_mod_actions ::
  "env \<Rightarrow> types_folder \<Rightarrow> error + dict list" where
  "yield_requirement_type_mod_actions E tf =
     map_sum id concat
       (collect (map (\<lambda>(identifier, reqt). requirement_type_mod_action E tf identifier reqt)
                     (requirement_types_of E)))"

text \<open>
  \<^verbatim>\<open>
  def requirement_type_delete_actions(self):
      assert self.reqt_folder
      parent_ref = decl.UUIDReference(self.reqt_folder)
      dels = [
          decl.UUIDReference(reqtype.uuid)
          for reqtype in self.reqt_folder.requirement_types
          if RMIdentifier(reqtype.identifier) not in self.requirement_types
      ]
      if not dels:
          return {"parent": parent_ref}
      return {"parent": parent_ref, "delete": dels}
  \<close>
  The first statement hands the types folder itself, not its uuid, to
  \<^verbatim>\<open>decl.UUIDReference\<close>.
\<close>

definition requirement_type_delete_actions :: "env \<Rightarrow> types_folder \<Rightarrow> error + dict" where
  "requirement_type_delete_actions E tf =
     (case UUIDReference (ElementItself (tf_uuid tf)) of
        Inl e \<Rightarrow> Inl e
      | Inr parent_ref \<Rightarrow>
          (let dels = map (\<lambda>reqtype. VRef (rt_uuid reqtype))
                        (filter (\<lambda>reqtype.
                                   rt_identifier reqtype \<notin> fst ` set (requirement_types_of E))
                           (tf_requirement_types tf))
           in if dels = [] then Inr [(''parent'', parent_ref)]
              else Inr [(''parent'', parent_ref), (''delete'', VList dels)]))"

section \<open>The mutable state of a run\<close>

text \<open>
  A run logs, collects the identifiers of relocated work items
  (\<^verbatim>\<open>self._location_changed\<close>) and keeps the deletion ledger \<^verbatim>\<open>self._req_deletions\<close>,
  which maps the uuid of a work item proposed for deletion to the action that deletes it.
  The ledger holds the action object itself: the same dictionary is an element of
  \<^verbatim>\<open>self.actions\<close>, and \<^verbatim>\<open>_invalidate_deletion\<close> changes it in place. So the actions
  that \<^verbatim>\<open>yield_requirements_mod_actions\<close> yields live in a store, \<open>heap\<close>: an address
  is an index into it, the generator yields addresses and the ledger maps to addresses.
  \<open>LogError\<close> is \<^verbatim>\<open>LOGGER.error("Requirement without type but with attributes found:
  ...")\<close> for the item with the given identifier; \<open>LogWarning\<close> is
  \<^verbatim>\<open>LOGGER.warning("Faulty Requirement in snapshot: Unknown RequirementType ...")\<close>.
\<close>

datatype log_entry = LogError rmid | LogWarning rmid

record state =
  heap :: "dict list"
  location_changed :: "rmid list"
  req_deletions :: "(uuid \<times> nat) list"
  log :: "log_entry list"

text \<open>
  The argument \<^verbatim>\<open>parent\<close> of \<^verbatim>\<open>yield_requirements_mod_actions\<close>: \<^verbatim>\<open>None\<close> (then the
  module is meant), a model element, or the string \<^verbatim>\<open>"To be created"\<close> that the creation
  path passes.
\<close>

datatype parent_arg = ParentDefault | ParentElem uuid | ParentText string

text \<open>
  The three results of \<^verbatim>\<open>attribute_value_mod_action\<close>: \<^verbatim>\<open>None\<close>, a creation payload,
  or the pair \<^verbatim>\<open>(name, value)\<close>.
\<close>

datatype attr_action = Unchanged | CreateAttr dict | ModifyAttr string raw

text \<open>The string when it is truthy: neither \<^verbatim>\<open>None\<close> nor empty.\<close>

definition truthy :: "string option \<Rightarrow> string option" where
  "truthy s = (case s of Some (c # cs) \<Rightarrow> Some (c # cs) | _ \<Rightarrow> None)"

text \<open>
  \<^verbatim>\<open>attr.value != value\<close> compares by value; \<^verbatim>\<open>True == 1\<close> and \<^verbatim>\<open>False == 0\<close> hold
  in Python.
\<close>

fun py_eq :: "raw \<Rightarrow> raw \<Rightarrow> bool" where
  "py_eq (RBool b) (RInt i) = ((if b then 1 else 0) = i)"
| "py_eq (RInt i) (RBool b) = ((if b then 1 else 0) = i)"
| "py_eq a b = (a = b)"

definition heap_get :: "dict list \<Rightarrow> nat \<Rightarrow> dict" where
  "heap_get h a = (if a < length h then h ! a else [])"

section \<open>The deletion ledger\<close>

text \<open>
  \<^verbatim>\<open>
  def _invalidate_deletion(self, requirement):
      key = "requirements"
      if isinstance(requirement, reqif.RequirementsFolder):
          key = "folders"
      try:
          ref = decl.UUIDReference(requirement.uuid)
          deletions = self._req_deletions[requirement.uuid]["delete"]
          deletions[key].remove(ref)
          if not deletions[key]:
              del deletions[key]
          if not deletions:
              del self._req_deletions[requirement.uuid]["delete"]
      except KeyError:
          pass
  \<close>
  \<^verbatim>\<open>list.remove\<close> raises ValueError, which the handler does not catch, when the
  reference is not in the list.
\<close>

definition invalidate_deletion :: "work_item \<Rightarrow> state \<Rightarrow> error + state" where
  "invalidate_deletion requirement st =
     (let key = (if wi_is_folder requirement then ''folders'' else ''requirements'');
          ref = VRef (wi_uuid requirement)
      in case map_of (req_deletions st) (wi_uuid requirement) of
           None \<Rightarrow> Inr st
         | Some a \<Rightarrow>
             (let action = heap_get (heap st) a
              in case map_of action ''delete'' of
                   None \<Rightarrow> Inr st
                 | Some (VDict deletions) \<Rightarrow>
                     (case map_of deletions key of
                        None \<Rightarrow> Inr st
                      | Some (VList refs) \<Rightarrow>
                          (if ref \<in> set refs then
                             (let refs' = remove1 ref refs;
                                  deletions' = (if refs' = [] then AList.delete key deletions
                                                else AList.update key (VList refs') deletions);
                                  action' = (if deletions' = [] then AList.delete ''delete'' action
                                             else AList.update ''delete'' (VDict deletions') action)
                              in Inr (st\<lparr>heap := (heap st)[a := action']\<rparr>))
                           else Inl ValueError)
                      | Some _ \<Rightarrow> Inl AttributeError)
                 | Some _ \<Rightarrow> Inl TypeError))"

text \<open>
  \<^verbatim>\<open>make_requirement_delete_actions(req, child_ids, key)\<close>: references to the live children
  of \<open>req\<close> in the slot \<open>key\<close> whose identifier is not in \<open>child_ids\<close>.
\<close>

definition make_requirement_delete_actions ::
  "env \<Rightarrow> work_item \<Rightarrow> rmid list \<Rightarrow> string \<Rightarrow> pyval list" where
  "make_requirement_delete_actions E req child_ids key =
     map (\<lambda>creq. VRef (wi_uuid creq))
       (filter (\<lambda>creq. wi_identifier creq \<notin> set child_ids) (children_of E (wi_uuid req) key))"

section \<open>Creating a work item\<close>

text \<open>
  The attribute loop of \<^verbatim>\<open>requirements_create_actions\<close>:
  \<^verbatim>\<open>
  for name, value in item.get("attributes", {}).items():
      if _blacklisted(name, value):
          if name == "Type" and value == "Folder":
              folder_hint = True
          continue
      if not req_type_id:
          LOGGER.error("Requirement without type but with attributes found: '%r'", item)
          break
      req_type_id = RMIdentifier(req_type_id)
      req_type = self.requirement_types[req_type_id]
      if name in req_type["attributes"]:
          attributes.append(self.attribute_value_create_action(name, value, req_type_id))
  \<close>
\<close>

fun create_attributes ::
  "env \<Rightarrow> item \<Rightarrow> (string \<times> raw) list \<Rightarrow> dict list \<times> bool \<Rightarrow> state
     \<Rightarrow> error + ((dict list \<times> bool) \<times> state)" where
  "create_attributes E item [] acc st = Inr (acc, st)"
| "create_attributes E item ((name, v) # rest) (attributes, folder_hint) st =
     (if blacklisted name v then
        create_attributes E item rest
          (attributes, folder_hint \<or> (name = ''Type'' \<and> v = RStr ''Folder'')) st
      else
        (case truthy (i_type item) of
           None \<Rightarrow>
             Inr ((attributes, folder_hint), st\<lparr>log := log st @ [LogError (i_id item)]\<rparr>)
         | Some req_type_id \<Rightarrow>
             (case map_of (requirement_types_of E) req_type_id of
                None \<Rightarrow> Inl KeyError
              | Some req_type \<Rightarrow>
                  (case rts_attributes req_type of
                     None \<Rightarrow> Inl KeyError
                   | Some attrs \<Rightarrow>
                       (if name \<in> fst ` set attrs then
                          (case attribute_value_create_action E name v req_type_id of
                             Inl e \<Rightarrow> Inl e
                           | Inr a \<Rightarrow>
                               create_attributes E item rest (attributes @ [a], folder_hint) st)
                        else create_attributes E item rest (attributes, folder_hint) st)))))"

text \<open>
  \<open>create_head\<close> is \<^verbatim>\<open>requirements_create_actions\<close> up to the children: the attribute
  loop, then the payload with \<^verbatim>\<open>long_name\<close>, \<^verbatim>\<open>identifier\<close>, the text when it is
  truthy, the attributes when there are any, and the type (by uuid when the lookup finds
  the requirement type, by the promise \<^verbatim>\<open>f"RequirementType {req_type_id}"\<close> otherwise).
  \<open>create_finish\<close> stores the children and drops an empty slot.
\<close>

definition create_head :: "env \<Rightarrow> item \<Rightarrow> state \<Rightarrow> error + (dict \<times> bool \<times> state)" where
  "create_head E item st =
     (case create_attributes E item (case i_attributes item of None \<Rightarrow> [] | Some a \<Rightarrow> a)
             ([], False) st of
        Inl e \<Rightarrow> Inl e
      | Inr ((attributes, folder_hint), st1) \<Rightarrow>
          (case i_long_name item of
             None \<Rightarrow> Inl KeyError
           | Some long_name \<Rightarrow>
               (let base0 = [(''long_name'', VStr long_name), (''identifier'', VStr (i_id item))];
                    base1 = (case truthy (i_text item) of
                               Some text \<Rightarrow> AList.update ''text'' (VStr text) base0
                             | None \<Rightarrow> base0);
                    base2 = (if attributes \<noteq> []
                             then AList.update ''attributes'' (VList (map VDict attributes)) base1
                             else base1);
                    base3 = (case truthy (i_type item) of
                               Some req_type_id \<Rightarrow>
                                 AList.update ''type''
                                   (case reqtype_by_identifier E req_type_id of
                                      None \<Rightarrow> VPromise (''RequirementType '' @ req_type_id)
                                    | Some reqtype \<Rightarrow> VRef (rt_uuid reqtype)) base2
                             | None \<Rightarrow> base2)
                in Inr (base3, folder_hint, st1))))"

definition create_finish :: "dict \<Rightarrow> pyval list \<Rightarrow> pyval list \<Rightarrow> dict" where
  "create_finish base reqs folds =
     (let base1 = AList.update ''folders'' (VList folds)
                    (AList.update ''requirements'' (VList reqs) base);
          base2 = (if folds = [] then AList.delete ''folders'' base1 else base1)
      in if reqs = [] then AList.delete ''requirements'' base2 else base2)"

section \<open>Modifying a work item\<close>

text \<open>
  \<^verbatim>\<open>attribute_value_mod_action\<close>: \<open>attribute_value_mod_body\<close> is the body of its
  \<^verbatim>\<open>try\<close>. The attribute is found by its definition (\<^verbatim>\<open>by_definition(attrdef,
  single=True)\<close>, elements compared by identity); a KeyError of the body is answered with the
  creation payload. \<^verbatim>\<open>req.type.identifier\<close> raises AttributeError when the work item has
  no type.
\<close>

definition attribute_value_mod_body ::
  "env \<Rightarrow> work_item \<Rightarrow> req_type \<Rightarrow> string \<Rightarrow> raw \<Rightarrow> error + attr_action" where
  "attribute_value_mod_body E req rtype name v =
     (case check_attribute_value_is_valid E name v (rt_identifier rtype) of
        Inl e \<Rightarrow> Inl e
      | Inr (builder_deftype, builder_key, builder_value) \<Rightarrow>
          (let attrdef = attribute_definition_by_identifier E builder_deftype
                           (name @ '' '' @ rt_identifier rtype) (Some (rt_uuid rtype))
           in case by_single (\<lambda>a. map_option ad_uuid (av_definition a) = map_option ad_uuid attrdef)
                     (wi_attributes req) of
                Inl e \<Rightarrow> Inl e
              | Inr attr \<Rightarrow>
                  (if av_is_enum attr then
                     (if \<not> isinstance v TList then Inl AssertionError
                      else Inr (if set (av_values attr) \<noteq> set (literals v)
                                then ModifyAttr name v else Unchanged))
                   else Inr (if \<not> py_eq (av_value attr) v then ModifyAttr name v else Unchanged))))"

definition attribute_value_mod_action ::
  "env \<Rightarrow> work_item \<Rightarrow> string \<Rightarrow> raw \<Rightarrow> error + attr_action" where
  "attribute_value_mod_action E req name v =
     (case wi_type req of
        None \<Rightarrow> Inl AttributeError
      | Some rtype \<Rightarrow>
          (case attribute_value_mod_body E req rtype name v of
             Inl KeyError \<Rightarrow>
               map_sum id CreateAttr (attribute_value_create_action E name v (rt_identifier rtype))
           | r \<Rightarrow> r))"

text \<open>
  The attribute loop of \<^verbatim>\<open>yield_requirements_mod_actions\<close>:
  \<^verbatim>\<open>
  for name, value in item_attributes.items():
      if value is not None and _blacklisted(name, value):
          continue
      action = self.attribute_value_mod_action(req, name, value)
      if action is None:
          continue
      if isinstance(action, dict):
          attributes_creations.append(action)
      else:
          attributes_modifications[name] = action[1]
  \<close>
\<close>

fun mod_attributes ::
  "env \<Rightarrow> work_item \<Rightarrow> (string \<times> raw) list \<Rightarrow> dict list \<times> dict
     \<Rightarrow> error + (dict list \<times> dict)" where
  "mod_attributes E req [] acc = Inr acc"
| "mod_attributes E req ((name, v) # rest) (attributes_creations, attributes_modifications) =
     (if v \<noteq> RNone \<and> blacklisted name v then
        mod_attributes E req rest (attributes_creations, attributes_modifications)
      else
        (case attribute_value_mod_action E req name v of
           Inl e \<Rightarrow> Inl e
         | Inr Unchanged \<Rightarrow>
             mod_attributes E req rest (attributes_creations, attributes_modifications)
         | Inr (CreateAttr action) \<Rightarrow>
             mod_attributes E req rest
               (attributes_creations @ [action], attributes_modifications)
         | Inr (ModifyAttr n w) \<Rightarrow>
             mod_attributes E req rest
               (attributes_creations, AList.update name (pv w) attributes_modifications)))"

text \<open>
  \<^verbatim>\<open>_compare_simple_attributes(req, item, filter=("id", "type", "attributes",
  "children"))\<close>: the keys of a work item of the snapshot that are left are
  \<^verbatim>\<open>"long_name"\<close> and \<^verbatim>\<open>"text"\<close>. The test is
  \<^verbatim>\<open>getattr(req, name, None) != value\<close>, so a live work item without text differs from
  every text of the snapshot, the empty one included.
\<close>

definition compare_simple_attributes :: "work_item \<Rightarrow> item \<Rightarrow> dict" where
  "compare_simple_attributes req item =
     (case i_long_name item of
        None \<Rightarrow> []
      | Some v \<Rightarrow> (if wi_long_name req \<noteq> v then [(''long_name'', VStr v)] else []))
     @ (case i_text item of
          None \<Rightarrow> []
        | Some v \<Rightarrow> (if wi_text req \<noteq> Some v then [(''text'', VStr v)] else []))"

text \<open>
  \<^verbatim>\<open>self._location_changed.add(RMIdentifier(req.identifier))\<close> followed by
  \<^verbatim>\<open>self._invalidate_deletion(req)\<close>.
\<close>

definition relocate :: "work_item \<Rightarrow> state \<Rightarrow> error + state" where
  "relocate req st =
     invalidate_deletion req
       (st\<lparr>location_changed := List.insert (wi_identifier req) (location_changed st)\<rparr>)"

text \<open>
  \<open>mod_head\<close> is \<^verbatim>\<open>yield_requirements_mod_actions\<close> up to the children: the attribute
  loop, the deletions of live attributes whose definition's name the snapshot does not
  list, the simple modifications, the type (with the warning for a type the snapshot does
  not declare), and the relocation check \<^verbatim>\<open>req.parent != parent\<close>. In
  \<^verbatim>\<open>base.get("modify", {}).update({"attributes": attributes_modifications})\<close> the
  update reaches \<open>base\<close> only when \<open>base\<close> has the key \<^verbatim>\<open>"modify"\<close>.
\<close>

definition mod_head ::
  "env \<Rightarrow> work_item \<Rightarrow> item \<Rightarrow> parent_arg \<Rightarrow> state \<Rightarrow> error + (dict \<times> state)" where
  "mod_head E req item parent st =
     (let item_attributes = (case i_attributes item of None \<Rightarrow> [] | Some a \<Rightarrow> a)
      in case mod_attributes E req item_attributes ([], []) of
           Inl e \<Rightarrow> Inl e
         | Inr (attributes_creations, attributes_modifications) \<Rightarrow>
      (case collect (map (\<lambda>attr. case av_definition attr of
                                     None \<Rightarrow> Inl AttributeError
                                   | Some d \<Rightarrow> Inr (attr, ad_long_name d))
                         (wi_attributes req)) of
         Inl e \<Rightarrow> Inl e
       | Inr named \<Rightarrow>
      (case wi_type req of
         None \<Rightarrow> Inl AttributeError
       | Some rtype \<Rightarrow>
      (let attributes_deletions =
             map (\<lambda>(attr, n). VRef (av_uuid attr))
               (filter (\<lambda>(attr, n). n \<notin> fst ` set item_attributes) named);
           base0 = [(''parent'', VRef (wi_uuid req))];
           mods0 = compare_simple_attributes req item;
           reqtype_id = i_type item;
           changed = (reqtype_id \<noteq> Some (rt_identifier rtype));
           st1 = (case truthy reqtype_id of
                    Some t \<Rightarrow>
                      (if changed \<and> t \<notin> fst ` set (requirement_types_of E)
                       then st\<lparr>log := log st @ [LogWarning t]\<rparr> else st)
                  | None \<Rightarrow> st);
           mods = (if changed
                   then AList.update ''type''
                          (case reqtype_id of None \<Rightarrow> VNone | Some t \<Rightarrow> VStr t) mods0
                   else mods0);
           base1 = (if mods \<noteq> [] then AList.update ''modify'' (VDict mods) base0 else base0);
           base2 = (if attributes_modifications \<noteq> [] then
                      (case map_of base1 ''modify'' of
                         Some (VDict m) \<Rightarrow>
                           AList.update ''modify''
                             (VDict (AList.update ''attributes''
                                       (VDict attributes_modifications) m)) base1
                       | _ \<Rightarrow> base1)
                    else base1);
           base3 = (if attributes_creations \<noteq> []
                    then AList.update ''extend''
                           (VDict [(''attributes'', VList (map VDict attributes_creations))]) base2
                    else base2);
           base4 = (if attributes_deletions \<noteq> []
                    then AList.update ''delete''
                           (VDict [(''attributes'', VList attributes_deletions)]) base3
                    else base3);
           moved = (case parent of
                      ParentDefault \<Rightarrow> wi_parent req \<noteq> req_module E
                    | ParentElem u \<Rightarrow> wi_parent req \<noteq> u
                    | ParentText s \<Rightarrow> True)
       in if moved then map_sum id (\<lambda>st2. (base4, st2)) (relocate req st1)
          else Inr (base4, st1)))))"


section \<open>The recursion over the tree of work items\<close>

text \<open>
  The two generators call each other for the children of an item. A generator is run to
  its end by the caller (\<^verbatim>\<open>next\<close> followed by \<^verbatim>\<open>extend\<close>, or \<^verbatim>\<open>extend\<close> alone), so
  the model returns all it yields at once: \<open>requirements_create_actions\<close> its first
  yield (the payload) and the rest (the actions of found descendants),
  \<open>yield_requirements_mod_actions\<close> the list of its yields. \<open>create_children\<close> and
  \<open>mod_children\<close> are the loops over the children; their accumulators are the lists the
  loops append to. \<open>child_key\<close> is
  \<^verbatim>\<open>"folders" if child.get("children") else "requirements"\<close>.
\<close>

type_synonym create_acc = "pyval list \<times> pyval list \<times> nat list"
type_synonym mod_acc = "pyval list \<times> pyval list \<times> rmid list \<times> rmid list \<times> nat list"

definition child_key :: "item \<Rightarrow> string" where
  "child_key child =
     (case i_children child of Some (c # cs) \<Rightarrow> ''folders'' | _ \<Rightarrow> ''requirements'')"

definition create_append :: "string \<Rightarrow> pyval \<Rightarrow> nat list \<Rightarrow> create_acc \<Rightarrow> create_acc" where
  "create_append key action child_actions acc =
     (case acc of (reqs, folds, child_mods) \<Rightarrow>
        if key = ''folders'' then (reqs, folds @ [action], child_mods @ child_actions)
        else (reqs @ [action], folds, child_mods @ child_actions))"

definition mod_register :: "item \<Rightarrow> mod_acc \<Rightarrow> mod_acc" where
  "mod_register child acc =
     (case acc of (cr_creations, cf_creations, child_req_ids, child_folder_ids, child_mods) \<Rightarrow>
        if child_key child = ''folders''
        then (cr_creations, cf_creations, child_req_ids,
              List.insert (i_id child) child_folder_ids, child_mods)
        else (cr_creations, cf_creations, List.insert (i_id child) child_req_ids,
              child_folder_ids, child_mods))"

definition mod_append :: "string \<Rightarrow> pyval list \<Rightarrow> nat list \<Rightarrow> mod_acc \<Rightarrow> mod_acc" where
  "mod_append key actions child_actions acc =
     (case acc of (cr_creations, cf_creations, child_req_ids, child_folder_ids, child_mods) \<Rightarrow>
        if key = ''folders''
        then (cr_creations, cf_creations @ actions, child_req_ids, child_folder_ids,
              child_mods @ child_actions)
        else (cr_creations @ actions, cf_creations, child_req_ids, child_folder_ids,
              child_mods @ child_actions))"

fun ref_uuid :: "pyval \<Rightarrow> uuid" where
  "ref_uuid (VRef u) = u"
| "ref_uuid _ = []"

text \<open>
  \<open>mod_tail\<close> is the part of \<^verbatim>\<open>yield_requirements_mod_actions\<close> after the loop over
  the children of a folder: the created and relocated children are merged into
  \<^verbatim>\<open>base["extend"]\<close>, the live children that are neither in the snapshot nor relocated
  into \<^verbatim>\<open>base["delete"]\<close>. \<open>emit_mod\<close> allocates the action, enters it in the ledger
  for every deleted child and yields it when one of \<^verbatim>\<open>extend\<close>, \<^verbatim>\<open>modify\<close> and
  \<^verbatim>\<open>delete\<close> is non-empty, followed by the actions of the children.
\<close>

definition mod_tail ::
  "env \<Rightarrow> work_item \<Rightarrow> dict \<Rightarrow> mod_acc \<Rightarrow> state \<Rightarrow> error + (dict \<times> pyval list)" where
  "mod_tail E req base acc st =
     (case acc of (cr_creations, cf_creations, child_req_ids, child_folder_ids, child_mods) \<Rightarrow>
        (let creations =
               (if cr_creations \<noteq> [] then [(''requirements'', VList cr_creations)] else [])
               @ (if cf_creations \<noteq> [] then [(''folders'', VList cf_creations)] else [])
         in case (if creations \<noteq> [] then deep_update base [(''extend'', VDict creations)]
                  else (base, None)) of
              (base1, Some e) \<Rightarrow> Inl e
            | (base1, None) \<Rightarrow>
                (let fold_dels = make_requirement_delete_actions E req
                                   (child_folder_ids @ location_changed st) ''folders'';
                     req_dels = make_requirement_delete_actions E req
                                  (child_req_ids @ location_changed st) ''requirements'';
                     children_deletions =
                       (if fold_dels \<noteq> [] then [(''folders'', VList fold_dels)] else [])
                       @ (if req_dels \<noteq> [] then [(''requirements'', VList req_dels)] else [])
                 in case (if children_deletions \<noteq> []
                          then deep_update base1 [(''delete'', VDict children_deletions)]
                          else (base1, None)) of
                      (base2, Some e) \<Rightarrow> Inl e
                    | (base2, None) \<Rightarrow> Inr (base2, req_dels @ fold_dels))))"

definition populated :: "dict \<Rightarrow> bool" where
  "populated base =
     (is_nonempty_mapping (get_or_empty base ''extend'')
      \<or> is_nonempty_mapping (get_or_empty base ''modify'')
      \<or> is_nonempty_mapping (get_or_empty base ''delete''))"

definition emit_mod :: "dict \<Rightarrow> pyval list \<Rightarrow> nat list \<Rightarrow> state \<Rightarrow> nat list \<times> state" where
  "emit_mod base del_refs child_mods st =
     (let a = length (heap st);
          st1 = st\<lparr>heap := heap st @ [base],
                   req_deletions :=
                     fold (\<lambda>del_ref. AList.update (ref_uuid del_ref) a) del_refs (req_deletions st)\<rparr>
      in ((if populated base then [a] else []) @ child_mods, st1))"

lemma size_children [termination_simp]:
  "i_children item = Some cs \<Longrightarrow> size_list size cs < size item"
  by (cases item) simp

function (sequential)
  requirements_create_actions ::
    "env \<Rightarrow> item \<Rightarrow> state \<Rightarrow> error + (dict \<times> nat list \<times> state)"
and yield_requirements_mod_actions ::
    "env \<Rightarrow> work_item \<Rightarrow> item \<Rightarrow> parent_arg \<Rightarrow> state \<Rightarrow> error + (nat list \<times> state)"
and create_children ::
    "env \<Rightarrow> item list \<Rightarrow> create_acc \<Rightarrow> state \<Rightarrow> error + (create_acc \<times> state)"
and mod_children ::
    "env \<Rightarrow> work_item \<Rightarrow> item list \<Rightarrow> mod_acc \<Rightarrow> state \<Rightarrow> error + (mod_acc \<times> state)"
where
  "requirements_create_actions E item st =
     (case create_head E item st of
        Inl e \<Rightarrow> Inl e
      | Inr (base, folder_hint, st1) \<Rightarrow>
          (if i_children item \<noteq> None \<or> folder_hint then
             (case i_children item of
                None \<Rightarrow> Inl KeyError
              | Some children \<Rightarrow>
                  (case create_children E children ([], [], []) st1 of
                     Inl e \<Rightarrow> Inl e
                   | Inr ((reqs, folds, child_mods), st2) \<Rightarrow>
                       Inr (create_finish base reqs folds, child_mods, st2)))
           else Inr (base, [], st1)))"
| "yield_requirements_mod_actions E req item parent st =
     (case mod_head E req item parent st of
        Inl e \<Rightarrow> Inl e
      | Inr (base, st1) \<Rightarrow>
          (if wi_is_folder req then
             (case i_children item of
                None \<Rightarrow>
                  (case mod_tail E req base ([], [], [], [], []) st1 of
                     Inl e \<Rightarrow> Inl e
                   | Inr (base1, del_refs) \<Rightarrow> Inr (emit_mod base1 del_refs [] st1))
              | Some children \<Rightarrow>
                  (case mod_children E req children ([], [], [], [], []) st1 of
                     Inl e \<Rightarrow> Inl e
                   | Inr (acc, st2) \<Rightarrow>
                       (case mod_tail E req base acc st2 of
                          Inl e \<Rightarrow> Inl e
                        | Inr (base1, del_refs) \<Rightarrow>
                            Inr (emit_mod base1 del_refs (snd (snd (snd (snd acc)))) st2))))
           else Inr (emit_mod base [] [] st1)))"
| "create_children E [] acc st = Inr (acc, st)"
| "create_children E (child # rest) acc st =
     (case work_item_by_identifier E (i_id child) of
        None \<Rightarrow>
          (case requirements_create_actions E child st of
             Inl e \<Rightarrow> Inl e
           | Inr (action, child_actions, st1) \<Rightarrow>
               create_children E rest
                 (create_append (child_key child) (VDict action) child_actions acc) st1)
      | Some creq \<Rightarrow>
          (case yield_requirements_mod_actions E creq child (ParentText ''To be created'') st of
             Inl e \<Rightarrow> Inl e
           | Inr (child_actions, st1) \<Rightarrow>
               create_children E rest
                 (create_append (child_key child) (VRef (wi_uuid creq)) child_actions acc) st1))"
| "mod_children E req [] acc st = Inr (acc, st)"
| "mod_children E req (child # rest) acc st =
     (case work_item_by_identifier E (i_id child) of
        None \<Rightarrow>
          (case requirements_create_actions E child st of
             Inl e \<Rightarrow> Inl e
           | Inr (action, child_actions, st1) \<Rightarrow>
               mod_children E req rest
                 (mod_append (child_key child) [VDict action] child_actions
                    (mod_register child acc)) st1)
      | Some creq \<Rightarrow>
          (case yield_requirements_mod_actions E creq child (ParentElem (wi_uuid req)) st of
             Inl e \<Rightarrow> Inl e
           | Inr (child_actions, st1) \<Rightarrow>
               mod_children E req rest
                 (mod_append (child_key child)
                    (if wi_parent creq \<noteq> wi_uuid req then [VRef (wi_uuid creq)] else [])
                    child_actions (mod_register child acc)) st1))"
  by pat_completeness auto
termination
  by (relation "measure (\<lambda>x. case x of
         Inl (Inl (E, item, st)) \<Rightarrow> size item
       | Inl (Inr (E, req, item, parent, st)) \<Rightarrow> size item
       | Inr (Inl (E, children, acc, st)) \<Rightarrow> size_list size children
       | Inr (Inr (E, req, children, acc, st)) \<Rightarrow> size_list size children)")
     (auto simp: size_children)

section \<open>The top level: \<^verbatim>\<open>calculate_change\<close>\<close>

text \<open>
  An element of \<^verbatim>\<open>self.actions\<close> is an action of the type system or the module (a
  value) or an action in the store (an address).
\<close>

datatype aref = Val dict | Ptr nat

definition deref :: "state \<Rightarrow> aref \<Rightarrow> dict" where
  "deref st r = (case r of Val d \<Rightarrow> d | Ptr a \<Rightarrow> heap_get (heap st) a)"

text \<open>
  \<^verbatim>\<open>
  def _add_action_safely(base, first_key, second_key, action):
      try:
          base[first_key][second_key].append(action)
      except KeyError:
          _deep_update(base, {first_key: {second_key: [action]}})
  \<close>
\<close>

definition add_action_safely :: "dict \<Rightarrow> string \<Rightarrow> string \<Rightarrow> pyval \<Rightarrow> error + dict" where
  "add_action_safely base first_key second_key action =
     (let fallback =
            (case deep_update base [(first_key, VDict [(second_key, VList [action])])] of
               (base1, None) \<Rightarrow> Inr base1
             | (base1, Some e) \<Rightarrow> Inl e)
      in case map_of base first_key of
           None \<Rightarrow> fallback
         | Some (VDict d) \<Rightarrow>
             (case map_of d second_key of
                None \<Rightarrow> fallback
              | Some (VList xs) \<Rightarrow>
                  Inr (AList.update first_key
                         (VDict (AList.update second_key (VList (xs @ [action])) d)) base)
              | Some _ \<Rightarrow> Inl AttributeError)
         | Some _ \<Rightarrow> Inl TypeError)"

text \<open>
  \<^verbatim>\<open>req_delete_actions(visited, attr_name)\<close>: the action that deletes the children of the
  module in the slot \<open>attr_name\<close> whose identifier was not visited.
\<close>

definition req_delete_actions :: "env \<Rightarrow> rmid list \<Rightarrow> string \<Rightarrow> dict" where
  "req_delete_actions E visited attr_name =
     (let parent_ref = VRef (req_module E);
          dels = map (\<lambda>req. VRef (wi_uuid req))
                   (filter (\<lambda>req. wi_identifier req \<notin> set visited)
                      (children_of E (req_module E) attr_name))
      in if dels = [] then [(''parent'', parent_ref)]
         else [(''parent'', parent_ref), (''delete'', VDict [(attr_name, VList dels)])])"

text \<open>
  The loop over \<^verbatim>\<open>self.tracker["items"]\<close>. For a found item the generator is created
  first and run by \<^verbatim>\<open>self.actions.extend(req_actions)\<close> last, after the relocation
  check of the loop itself.
\<close>

type_synonym loop_acc = "dict \<times> rmid list \<times> aref list"

fun items_loop :: "env \<Rightarrow> item list \<Rightarrow> loop_acc \<Rightarrow> state \<Rightarrow> error + (loop_acc \<times> state)" where
  "items_loop E [] acc st = Inr (acc, st)"
| "items_loop E (item # rest) (base, visited, actions) st =
     (let second_key = (if i_children item \<noteq> None then ''folders'' else ''requirements'')
      in case work_item_by_identifier E (i_id item) of
           None \<Rightarrow>
             (case requirements_create_actions E item st of
                Inl e \<Rightarrow> Inl e
              | Inr (item_action, req_actions, st1) \<Rightarrow>
                  (case add_action_safely base ''extend'' second_key (VDict item_action) of
                     Inl e \<Rightarrow> Inl e
                   | Inr base1 \<Rightarrow>
                       items_loop E rest (base1, visited, actions @ map Ptr req_actions) st1))
         | Some req \<Rightarrow>
             (case (if wi_parent req \<noteq> req_module E then
                      (case add_action_safely base ''extend'' second_key (VRef (wi_uuid req)) of
                         Inl e \<Rightarrow> Inl e
                       | Inr base1 \<Rightarrow> map_sum id (Pair base1) (relocate req st))
                    else Inr (base, st)) of
                Inl e \<Rightarrow> Inl e
              | Inr (base1, st1) \<Rightarrow>
                  (case yield_requirements_mod_actions E req item ParentDefault st1 of
                     Inl e \<Rightarrow> Inl e
                   | Inr (req_actions, st2) \<Rightarrow>
                       items_loop E rest
                         (base1, List.insert (wi_identifier req) visited,
                          actions @ map Ptr req_actions) st2)))"

text \<open>
  \<^verbatim>\<open>
  for action in self._req_deletions.values():
      if set(action) == {"parent"}:
          self.actions.remove(action)
  \<close>
  \<^verbatim>\<open>list.remove\<close> takes out the first element equal to the action and raises ValueError
  when there is none.
\<close>

fun list_remove :: "state \<Rightarrow> dict \<Rightarrow> aref list \<Rightarrow> error + aref list" where
  "list_remove st action [] = Inl ValueError"
| "list_remove st action (x # xs) =
     (if deref st x = action then Inr xs
      else map_sum id ((#) x) (list_remove st action xs))"

definition only_parent :: "dict \<Rightarrow> bool" where
  "only_parent action = (set (map fst action) = {''parent''})"

fun prune_void :: "state \<Rightarrow> nat list \<Rightarrow> aref list \<Rightarrow> error + aref list" where
  "prune_void st [] actions = Inr actions"
| "prune_void st (a # as) actions =
     (if only_parent (heap_get (heap st) a) then
        (case list_remove st (heap_get (heap st) a) actions of
           Inl e \<Rightarrow> Inl e
         | Inr actions1 \<Rightarrow> prune_void st as actions1)
      else prune_void st as actions)"

text \<open>
  The first part of \<^verbatim>\<open>calculate_change\<close>: without a types folder the module action
  \<open>base\<close> is the creation of the folder with all its definitions; with one, the actions
  of the data type definitions, then those of the requirement types, then the deletion of
  requirement types are appended to \<^verbatim>\<open>self.actions\<close>. The two generators are run to
  their end by \<^verbatim>\<open>extend\<close> before \<^verbatim>\<open>requirement_type_delete_actions\<close> is called.
\<close>

definition type_system_actions :: "env \<Rightarrow> error + (dict \<times> aref list)" where
  "type_system_actions E =
     (case reqt_folder E of
        None \<Rightarrow> map_sum id (\<lambda>base. (base, [])) (requirement_types_folder_create_action E)
      | Some tf \<Rightarrow>
          (case yield_data_type_definition_mod_actions E tf of
             Inl e \<Rightarrow> Inl e
           | Inr dt_actions \<Rightarrow>
               (case yield_requirement_type_mod_actions E tf of
                  Inl e \<Rightarrow> Inl e
                | Inr rt_actions \<Rightarrow>
                    (case requirement_type_delete_actions E tf of
                       Inl e \<Rightarrow> Inl e
                     | Inr reqtype_delete_actions \<Rightarrow>
                         Inr ([(''parent'', VRef (req_module E))],
                              map Val dt_actions @ map Val rt_actions
                              @ (if \<not> only_parent reqtype_delete_actions
                                 then [Val reqtype_delete_actions] else []))))))"

text \<open>
  \<^verbatim>\<open>calculate_change\<close> as a whole. The result is the final \<^verbatim>\<open>self.actions\<close> and the
  log, or the exception that ends the run.
\<close>

definition initial_state :: state where
  "initial_state = \<lparr>heap = [], location_changed = [], req_deletions = [], log = []\<rparr>"

definition calculate_change :: "env \<Rightarrow> error + (dict list \<times> log_entry list)" where
  "calculate_change E =
     (case type_system_actions E of
        Inl e \<Rightarrow> Inl e
      | Inr (base, actions) \<Rightarrow>
          (case items_loop E (items (tracker E)) (base, [], actions) initial_state of
             Inl e \<Rightarrow> Inl e
           | Inr ((base1, visited, actions1), st) \<Rightarrow>
               (case prune_void st (map snd (req_deletions st)) actions1 of
                  Inl e \<Rightarrow> Inl e
                | Inr actions2 \<Rightarrow>
                    (case deep_update base1 (req_delete_actions E visited ''requirements'') of
                       (base2, Some e) \<Rightarrow> Inl e
                     | (base2, None) \<Rightarrow>
                         (case deep_update base2 (req_delete_actions E visited ''folders'') of
                            (base3, Some e) \<Rightarrow> Inl e
                          | (base3, None) \<Rightarrow>
                              Inr (map (deref st)
                                     (actions2 @ (if \<not> only_parent base3 then [Val base3] else [])),
                                   log st))))))"

section \<open>The environment of a live model\<close>

text \<open>
  Modelled from the spec: \<^verbatim>\<open>find.ReqFinder\<close> over a concrete live model (the class is not
  among the sources). The live model is the module, its types folder and the work items
  with their owners. By the spec's section 6 the model-access layer offers a lookup by
  external identifier that is module-wide, a lookup of the type folder under the module, a
  lookup of an enumeration literal by name under a scope and a lookup of an attribute
  definition by identifier under a scope; by section 4.2 a lookup yields the entity or
  nothing. A lookup here yields the one entity with the key and nothing when none or
  several have it. An attribute definition is looked up among the definitions of the
  requirement types below the scope (a requirement type, or the types folder) whose class
  has the name the caller gives.
\<close>

definition the_one :: "('a \<Rightarrow> bool) \<Rightarrow> 'a list \<Rightarrow> 'a option" where
  "the_one P xs = (case filter P xs of [x] \<Rightarrow> Some x | _ \<Rightarrow> None)"

definition folder_types :: "types_folder option \<Rightarrow> req_type list" where
  "folder_types tf = (case tf of None \<Rightarrow> [] | Some f \<Rightarrow> tf_requirement_types f)"

definition folder_data_types :: "types_folder option \<Rightarrow> data_type_def list" where
  "folder_data_types tf = (case tf of None \<Rightarrow> [] | Some f \<Rightarrow> tf_data_type_definitions f)"

definition class_matches :: "string \<Rightarrow> attr_def \<Rightarrow> bool" where
  "class_matches xtype d =
     ((xtype = ''AttributeDefinition'' \<and> \<not> ad_is_enum d)
      \<or> (xtype = ''AttributeDefinitionEnumeration'' \<and> ad_is_enum d))"

definition definitions_below :: "types_folder option \<Rightarrow> uuid option \<Rightarrow> attr_def list" where
  "definitions_below tf scope =
     concat (map rt_attribute_definitions
       (filter (\<lambda>r. scope = None \<or> scope = map_option tf_uuid tf \<or> scope = Some (rt_uuid r))
          (folder_types tf)))"

definition model_env ::
  "tracker \<Rightarrow> uuid \<Rightarrow> types_folder option \<Rightarrow> work_item list \<Rightarrow> env" where
  "model_env t m tf work_items =
     \<lparr>tracker = t,
      req_module = m,
      reqt_folder = tf,
      children_of =
        (\<lambda>u slot. filter (\<lambda>w. wi_parent w = u \<and> wi_is_folder w = (slot = ''folders''))
                     work_items),
      set_order = remdups,
      work_item_by_identifier = (\<lambda>i. the_one (\<lambda>w. wi_identifier w = i) work_items),
      reqtype_by_identifier = (\<lambda>i. the_one (\<lambda>r. rt_identifier r = i) (folder_types tf)),
      enum_data_type_definition_by_long_name =
        (\<lambda>n. the_one (\<lambda>d. dtd_long_name d = n) (folder_data_types tf)),
      enum_value_by_long_name =
        (\<lambda>n. the_one (\<lambda>v. ev_long_name v = n) (concat (map dtd_values (folder_data_types tf)))),
      attribute_definition_by_identifier =
        (\<lambda>xtype i scope.
           the_one (\<lambda>d. ad_identifier d = i \<and> class_matches xtype d)
             (definitions_below tf scope))\<rparr>"

section \<open>Predicates on action lists\<close>

text \<open>
  The properties the specification states of the final action list. A reference is a
  \<^verbatim>\<open>UUIDReference\<close> of a uuid or a promise. \<open>slot_refs key action\<close> are the references
  in the slots of \<^verbatim>\<open>action[key]\<close>; \<open>exclusive\<close> says that no reference is both in a
  \<^verbatim>\<open>delete\<close> slot and in an \<^verbatim>\<open>extend\<close> slot of the list. \<open>change_action_shape\<close> is the
  shape of a \<^verbatim>\<open>ChangeAction\<close> as far as its parent and its deletions go: the parent is a
  reference, and \<^verbatim>\<open>delete\<close>, when present, maps slot names to lists of references.
  \<open>populated\<close> (above) says that one of \<^verbatim>\<open>extend\<close>, \<^verbatim>\<open>modify\<close> and \<^verbatim>\<open>delete\<close> is a
  non-empty mapping.
\<close>

fun is_reference :: "pyval \<Rightarrow> bool" where
  "is_reference (VRef u) = True"
| "is_reference (VPromise l) = True"
| "is_reference _ = False"

fun list_items :: "pyval \<Rightarrow> pyval list" where
  "list_items (VList xs) = xs"
| "list_items _ = []"

definition slot_refs :: "string \<Rightarrow> dict \<Rightarrow> pyval list" where
  "slot_refs key action =
     concat (map (\<lambda>slot. filter is_reference (list_items (snd slot)))
               (mapping_items (get_or_empty action key)))"

definition exclusive :: "dict list \<Rightarrow> bool" where
  "exclusive actions =
     (\<not> list_ex (\<lambda>r. r \<in> set (concat (map (slot_refs ''extend'') actions)))
          (concat (map (slot_refs ''delete'') actions)))"

fun is_reference_list :: "pyval \<Rightarrow> bool" where
  "is_reference_list (VList xs) = list_all is_reference xs"
| "is_reference_list _ = False"

fun is_slot_mapping :: "pyval \<Rightarrow> bool" where
  "is_slot_mapping (VDict slots) = list_all (\<lambda>slot. is_reference_list (snd slot)) slots"
| "is_slot_mapping _ = False"

definition change_action_shape :: "dict \<Rightarrow> bool" where
  "change_action_shape action =
     ((case map_of action ''parent'' of None \<Rightarrow> False | Some p \<Rightarrow> is_reference p)
      \<and> (case map_of action ''delete'' of None \<Rightarrow> True | Some d \<Rightarrow> is_slot_mapping d))"

text \<open>
  \<open>promised v\<close> are the labels of the promises inside a value and \<open>declared v\<close> the
  labels that the payloads inside it declare under \<^verbatim>\<open>promise_id\<close>; \<open>promises_resolved\<close>
  says that every promised label of the list is declared exactly once in the list.
  \<open>assigned_identifiers v\<close> are the strings stored under \<^verbatim>\<open>identifier\<close> inside a value
  and \<open>snapshot_identifiers\<close> the identifiers the snapshot spells out: those of its
  requirement types and of its work items at all levels.
\<close>

fun promised :: "pyval \<Rightarrow> string list" where
  "promised (VPromise l) = [l]"
| "promised (VList xs) = concat (map promised xs)"
| "promised (VDict d) = concat (map (\<lambda>p. promised (snd p)) d)"
| "promised _ = []"

fun label_of :: "pyval option \<Rightarrow> string list" where
  "label_of (Some (VStr l)) = [l]"
| "label_of _ = []"

fun declared :: "pyval \<Rightarrow> string list" where
  "declared (VList xs) = concat (map declared xs)"
| "declared (VDict d) = label_of (map_of d ''promise_id'') @ concat (map (\<lambda>p. declared (snd p)) d)"
| "declared _ = []"

definition promises_resolved :: "dict list \<Rightarrow> bool" where
  "promises_resolved actions =
     list_all (\<lambda>l. count_list (declared (VList (map VDict actions))) l = 1)
       (promised (VList (map VDict actions)))"

fun assigned_identifiers :: "pyval \<Rightarrow> string list" where
  "assigned_identifiers (VList xs) = concat (map assigned_identifiers xs)"
| "assigned_identifiers (VDict d) =
     label_of (map_of d ''identifier'') @ concat (map (\<lambda>p. assigned_identifiers (snd p)) d)"
| "assigned_identifiers _ = []"

fun item_identifiers :: "item \<Rightarrow> rmid list" where
  "item_identifiers (Item i ln tx ty attrs ch) =
     i # (case ch of None \<Rightarrow> [] | Some cs \<Rightarrow> concat (map item_identifiers cs))"

definition snapshot_identifiers :: "tracker \<Rightarrow> rmid list" where
  "snapshot_identifiers t =
     map fst (requirement_types t) @ concat (map item_identifiers (items t))"

definition identifiers_from_snapshot :: "tracker \<Rightarrow> dict list \<Rightarrow> bool" where
  "identifiers_from_snapshot t actions =
     list_all (\<lambda>i. i \<in> set (snapshot_identifiers t))
       (assigned_identifiers (VList (map VDict actions)))"

section \<open>Example models\<close>

text \<open>
  A snapshot with one enumeration \<open>Status\<close> with the options \<open>Open\<close> and \<open>Closed\<close>,
  one requirement type \<open>RT\<close> with the enumeration attribute \<open>Status\<close> and the string
  attribute \<open>Title\<close>, and one requirement whose \<open>Status\<close> lists a declared option
  and an undeclared one.
\<close>

definition rt_spec_status :: req_type_spec where
  "rt_spec_status =
     \<lparr>rts_long_name = Some ''Requirement'',
      rts_attributes = Some [(''Status'', \<lparr>ads_type = Some ''Enum'', ads_multi_values = None\<rparr>),
                             (''Title'', \<lparr>ads_type = Some ''String'', ads_multi_values = None\<rparr>)]\<rparr>"

definition item_req1 :: item where
  "item_req1 = Item ''REQ-1'' (Some ''Brakes'') None (Some ''RT'')
                 (Some [(''Status'', RList [''Open'', ''Bogus''])]) None"

definition snapshot_status :: tracker where
  "snapshot_status =
     \<lparr>data_types = [(''Status'', [''Open'', ''Closed''])],
      requirement_types = [(''RT'', rt_spec_status)],
      items = [item_req1]\<rparr>"

text \<open>The module \<open>u-mod\<close> of a live model without types folder and without work items.\<close>

definition env_status :: env where
  "env_status = model_env snapshot_status ''u-mod'' None []"

text \<open>
  A live model whose module \<open>u-mod\<close> has no types folder and holds, at its root, the
  folder \<open>F\<close> and the requirement \<open>R\<close>, both of the requirement type \<open>RT\<close>. In
  the snapshot \<open>snapshot_moved\<close> the requirement \<open>R\<close> has moved into the folder
  \<open>F\<close>. \<open>live_types_folder\<close> is a types folder that holds \<open>RT\<close>.
\<close>

definition live_rt :: req_type where
  "live_rt = \<lparr>rt_uuid = ''u-rt'', rt_identifier = ''RT'', rt_long_name = ''Requirement'',
              rt_attribute_definitions = []\<rparr>"

definition live_types_folder :: types_folder where
  "live_types_folder =
     \<lparr>tf_uuid = ''u-tf'', tf_data_type_definitions = [], tf_requirement_types = [live_rt]\<rparr>"

definition live_F :: work_item where
  "live_F = \<lparr>wi_uuid = ''u-F'', wi_identifier = ''F'', wi_is_folder = True,
             wi_parent = ''u-mod'', wi_long_name = ''Folder'', wi_text = None,
             wi_type = Some live_rt, wi_attributes = []\<rparr>"

definition live_R :: work_item where
  "live_R = \<lparr>wi_uuid = ''u-R'', wi_identifier = ''R'', wi_is_folder = False,
             wi_parent = ''u-mod'', wi_long_name = ''Req'', wi_text = None,
             wi_type = Some live_rt, wi_attributes = []\<rparr>"

definition rt_spec_plain :: req_type_spec where
  "rt_spec_plain = \<lparr>rts_long_name = Some ''Requirement'', rts_attributes = Some []\<rparr>"

definition snapshot_moved :: tracker where
  "snapshot_moved =
     \<lparr>data_types = [],
      requirement_types = [(''RT'', rt_spec_plain)],
      items = [Item ''F'' (Some ''Folder'') None (Some ''RT'') None
                 (Some [Item ''R'' (Some ''Req'') None (Some ''RT'') None None])]\<rparr>"

definition env_moved :: env where
  "env_moved = model_env snapshot_moved ''u-mod'' None [live_F, live_R]"

text \<open>
  A live model with the types folder \<open>live_types_folder\<close> and without work items; the
  snapshot \<open>snapshot_no_type\<close> declares no requirement type at all, so the requirement
  type \<open>RT\<close> of the folder is to be deleted.
\<close>

definition snapshot_no_type :: tracker where
  "snapshot_no_type = \<lparr>data_types = [], requirement_types = [], items = []\<rparr>"

definition env_no_type :: env where
  "env_no_type = model_env snapshot_no_type ''u-mod'' (Some live_types_folder) []"

text \<open>
  A live model without types folder in which the folder \<open>F\<close> holds the requirement
  \<open>R1\<close> and the folder \<open>G\<close>; in the snapshot \<open>snapshot_emptied\<close> both have moved
  to the root of the module.
\<close>

definition live_R1 :: work_item where
  "live_R1 = \<lparr>wi_uuid = ''u-R1'', wi_identifier = ''R1'', wi_is_folder = False,
              wi_parent = ''u-F'', wi_long_name = ''Req'', wi_text = None,
              wi_type = Some live_rt, wi_attributes = []\<rparr>"

definition live_G :: work_item where
  "live_G = \<lparr>wi_uuid = ''u-G'', wi_identifier = ''G'', wi_is_folder = True,
             wi_parent = ''u-F'', wi_long_name = ''Group'', wi_text = None,
             wi_type = Some live_rt, wi_attributes = []\<rparr>"

definition snapshot_emptied :: tracker where
  "snapshot_emptied =
     \<lparr>data_types = [],
      requirement_types = [(''RT'', rt_spec_plain)],
      items = [Item ''F'' (Some ''Folder'') None (Some ''RT'') None (Some []),
               Item ''R1'' (Some ''Req'') None (Some ''RT'') None None,
               Item ''G'' (Some ''Group'') None (Some ''RT'') None (Some [])]\<rparr>"

definition env_emptied :: env where
  "env_emptied =
     model_env snapshot_emptied ''u-mod'' None [live_F, live_R1, live_G]"


text \<open>The declaration of the attribute \<open>Status\<close> in \<open>rt_spec_status\<close>.\<close>

definition adef_status :: attr_def_spec where
  "adef_status = \<lparr>ads_type = Some ''Enum'', ads_multi_values = None\<rparr>"









section \<open>Properties of the deep merge\<close>

lemma update_same: "map_of al k = Some v \<Longrightarrow> AList.update k v al = al"
  by (induction al) auto

lemma deep_update_other:
  "k \<notin> fst ` set ov \<Longrightarrow> map_of (fst (deep_update s ov)) k = map_of s k"
proof (induction s ov rule: deep_update.induct)
  case (1 source)
  then show ?case by simp
next
  case (2 source key v rest)
  then show ?case
    by (auto simp: update_conv' split: option.splits pyval.splits prod.splits)
qed

lemma deep_update_idem:
  "unique_keys (VDict ov) \<Longrightarrow> deep_update (fst (deep_update s ov)) ov = deep_update s ov"
proof (induction s ov rule: deep_update.induct)
  case (1 source)
  then show ?case by simp
next
  case (2 source key v rest)
  from "2.prems" have notin: "key \<notin> fst ` set rest" and uk_rest: "unique_keys (VDict rest)"
    and uk_v: "unique_keys v" by auto
  show ?case
  proof (cases "is_nonempty_mapping v")
    case False
    let ?s0 = "AList.update key v source"
    let ?s1 = "fst (deep_update ?s0 rest)"
    have look: "map_of ?s1 key = Some v"
      using notin by (simp add: deep_update_other update_conv')
    have idem: "deep_update ?s1 rest = deep_update ?s0 rest"
      using "2.IH"(5)[OF False uk_rest] .
    show ?thesis using False look idem by (simp add: update_same)
  next
    case True
    then have uk_items: "unique_keys (VDict (mapping_items v))"
      using uk_v by (cases v rule: is_nonempty_mapping.cases) auto
    show ?thesis
    proof (cases "map_of source key")
      case None
      obtain u e where du: "deep_update [] (mapping_items v) = (u, e)" by force
      show ?thesis
      proof (cases e)
        case (Some err)
        then show ?thesis using True None du by simp
      next
        case Nn: None
        let ?s0 = "AList.update key (VDict u) source"
        let ?s1 = "fst (deep_update ?s0 rest)"
        have look: "map_of ?s1 key = Some (VDict u)"
          using notin by (simp add: deep_update_other update_conv')
        have inner: "deep_update u (mapping_items v) = (u, None)"
          using "2.IH"(1)[OF True None uk_items] du Nn by simp
        have idem: "deep_update ?s1 rest = deep_update ?s0 rest"
          using "2.IH"(2)[OF True None du[symmetric] Nn uk_rest] .
        show ?thesis using True None du Nn look inner idem by (simp add: update_same)
      qed
    next
      case (Some w)
      show ?thesis
      proof (cases w)
        case (VDict d)
        obtain u e where du: "deep_update d (mapping_items v) = (u, e)" by force
        have inner: "deep_update u (mapping_items v) = (u, e)"
          using "2.IH"(3)[OF True Some VDict uk_items] du by simp
        show ?thesis
        proof (cases e)
          case Se: (Some err)
          then show ?thesis using True Some VDict du inner by (simp add: update_conv')
        next
          case Nn: None
          let ?s0 = "AList.update key (VDict u) source"
          let ?s1 = "fst (deep_update ?s0 rest)"
          have look: "map_of ?s1 key = Some (VDict u)"
            using notin by (simp add: deep_update_other update_conv')
          have idem: "deep_update ?s1 rest = deep_update ?s0 rest"
            using "2.IH"(4)[OF True Some VDict du[symmetric] Nn uk_rest] .
          show ?thesis using True Some VDict du Nn look inner idem by (simp add: update_same)
        qed
      qed (use True Some in auto)
    qed
  qed
qed

lemma deep_update_lookup:
  "unique_keys (VDict ov) \<Longrightarrow> snd (deep_update s ov) = None \<Longrightarrow> (k, v) \<in> set ov \<Longrightarrow>
   map_of (fst (deep_update s ov)) k =
     Some (if is_nonempty_mapping v
           then VDict (fst (deep_update (mapping_items (get_or_empty s k)) (mapping_items v)))
           else v)"
proof (induction s ov rule: deep_update.induct)
  case (1 source)
  then show ?case by simp
next
  case (2 source key w rest)
  from "2.prems" have notin: "key \<notin> fst ` set rest" and uk_rest: "unique_keys (VDict rest)"
    by auto
  show ?case
  proof (cases "(k, v) = (key, w)")
    case True
    then show ?thesis using notin "2.prems"(2)
      by (auto simp: deep_update_other update_conv' get_or_empty_def
               split: option.splits pyval.splits prod.splits if_splits)
  next
    case False
    then have inrest: "(k, v) \<in> set rest" using "2.prems"(3) by auto
    then have ne: "k \<noteq> key" using notin by force
    show ?thesis using "2.IH" "2.prems"(2) uk_rest inrest ne
      by (auto simp: update_conv' get_or_empty_def
               split: option.splits pyval.splits prod.splits if_splits)
  qed
qed

text \<open>
  Claim C9. The deep merge is idempotent: for dictionaries with pairwise different keys,
  running \<^verbatim>\<open>_deep_update(source, overrides)\<close> again on the source the first run left
  changes nothing (neither the dictionary nor the outcome). When the merge succeeds, an
  override that is a non-empty mapping is merged recursively into the entry the source has
  under that key (an empty dictionary when it has none); any other override, a list or an
  empty mapping included, replaces the entry; keys that \<open>overrides\<close> does not mention
  are left as they are.
\<close>

theorem deep_update_idempotent_merge:
  assumes "unique_keys (VDict overrides)"
  shows "deep_update (fst (deep_update source overrides)) overrides = deep_update source overrides
    \<and> (snd (deep_update source overrides) = None \<longrightarrow>
         (\<forall>p \<in> set overrides.
            map_of (fst (deep_update source overrides)) (fst p) =
              Some (if is_nonempty_mapping (snd p)
                    then VDict (fst (deep_update (mapping_items (get_or_empty source (fst p)))
                                       (mapping_items (snd p))))
                    else snd p)))
    \<and> (\<forall>k. k \<notin> fst ` set overrides \<longrightarrow>
           map_of (fst (deep_update source overrides)) k = map_of source k)"
proof (intro conjI impI ballI allI)
  show "deep_update (fst (deep_update source overrides)) overrides = deep_update source overrides"
    using assms by (rule deep_update_idem)
next
  fix p
  assume ok: "snd (deep_update source overrides) = None" and mem: "p \<in> set overrides"
  from mem have "(fst p, snd p) \<in> set overrides" by simp
  from deep_update_lookup[OF assms ok this]
  show "map_of (fst (deep_update source overrides)) (fst p) =
          Some (if is_nonempty_mapping (snd p)
                then VDict (fst (deep_update (mapping_items (get_or_empty source (fst p)))
                                   (mapping_items (snd p))))
                else snd p)" .
next
  fix k
  assume "k \<notin> fst ` set overrides"
  then show "map_of (fst (deep_update source overrides)) k = map_of source k"
    by (rule deep_update_other)
qed

definition example_source :: dict where
  "example_source =
     [(''parent'', VRef ''m''), (''extend'', VDict [(''folders'', VList [VRef ''f''])])]"

definition example_overrides :: dict where
  "example_overrides =
     [(''extend'', VDict [(''requirements'', VList [VRef ''r''])]),
      (''delete'', VDict [(''requirements'', VList [VRef ''q''])]),
      (''modify'', VDict [])]"

definition example_merged :: dict where
  "example_merged =
     [(''parent'', VRef ''m''),
      (''extend'', VDict [(''folders'', VList [VRef ''f'']),
                          (''requirements'', VList [VRef ''r''])]),
      (''delete'', VDict [(''requirements'', VList [VRef ''q''])]),
      (''modify'', VDict [])]"

lemma example_merge: "deep_update example_source example_overrides = (example_merged, None)"
  by (simp add: example_source_def example_overrides_def example_merged_def)

theorem deep_update_idempotent_merge_witness:
  "unique_keys (VDict example_overrides)
   \<and> deep_update example_source example_overrides = (example_merged, None)
   \<and> deep_update example_merged example_overrides = (example_merged, None)
   \<and> map_of example_merged ''modify'' = Some (VDict [])
   \<and> map_of example_merged ''parent'' = map_of example_source ''parent''"
proof -
  have uk: "unique_keys (VDict example_overrides)"
    by (simp add: example_overrides_def)
  have mem: "(''modify'', VDict []) \<in> set example_overrides"
    by (simp add: example_overrides_def)
  have notin: "''parent'' \<notin> fst ` set example_overrides"
    by (simp add: example_overrides_def)
  from deep_update_idempotent_merge[OF uk, of example_source] example_merge mem notin
  show ?thesis using uk by (auto simp: example_merge)
qed

section \<open>Properties of the value validator\<close>

text \<open>
  A snapshot that declares the enumeration attribute \<open>Status\<close> on the requirement type
  \<open>RT\<close> and has no data type definition of that name.
\<close>

definition env_no_options :: env where
  "env_no_options =
     model_env \<lparr>data_types = [], requirement_types = [(''RT'', rt_spec_status)], items = []\<rparr>
       ''u-mod'' None []"

text \<open>
  Claim C3 as stated (\<open>InvalidFieldValue\<close> exactly on a mismatch of shape or, for
  \<open>Enum\<close>, of membership) fails: for an attribute declared as \<open>Enum\<close> whose name
  is no key of \<^verbatim>\<open>data_types\<close>, \<^verbatim>\<open>self.data_type_definitions[name]\<close> raises KeyError
  before the value is looked at. Here the value is a string, not a list, and the
  validator raises KeyError instead of \<open>InvalidFieldValue\<close>.
\<close>

theorem enum_without_options_raises_key_error:
  "declared_kind env_no_options ''RT'' ''Status'' = Inr ''Enum''
   \<and> map_of ATTR_VALUE_DEFAULT_MAP ''Enum'' = Some TList
   \<and> \<not> isinstance (RStr ''Open'') TList
   \<and> map_of (data_type_definitions env_no_options) ''Status'' = None
   \<and> check_attribute_value_is_valid env_no_options ''Status'' (RStr ''Open'') ''RT''
       = Inl KeyError"
  by code_simp

lemma declared_kind_error: "declared_kind E req_type_id name = Inl e \<Longrightarrow> e = KeyError"
  by (auto simp: declared_kind_def split: option.splits)

text \<open>
  Claim C3, amended. \<^verbatim>\<open>check_attribute_value_is_valid\<close> raises KeyError, whatever the
  value, when the snapshot does not declare the attribute on the requirement type with a
  kind of \<^verbatim>\<open>_ATTR_VALUE_DEFAULT_MAP\<close>, or declares it as \<open>Enum\<close> without a data type
  definition of the attribute's name. In every other case, with \<open>cls\<close> the class expected
  for the declared kind and \<open>options\<close> the declared options, it raises
  \<open>InvalidFieldValue\<close>, carrying the storage key, the offending value and the attribute
  name, exactly when the value is no instance of \<open>cls\<close> or, for \<open>Enum\<close>, none of its
  literals is a declared option; otherwise it returns the kind, the storage key
  (\<open>values\<close> for \<open>Enum\<close>, \<open>value\<close> otherwise) and the value unchanged. The function
  has no state to change.
\<close>

theorem check_attribute_value_is_valid_raises_exactly:
  "(declared_kind E req_type_id name = Inl e \<longrightarrow>
      e = KeyError \<and> check_attribute_value_is_valid E name v req_type_id = Inl KeyError)
   \<and> (declared_kind E req_type_id name = Inr deftype
        \<and> map_of ATTR_VALUE_DEFAULT_MAP deftype = None \<longrightarrow>
        check_attribute_value_is_valid E name v req_type_id = Inl KeyError)
   \<and> (declared_kind E req_type_id name = Inr ''Enum''
        \<and> map_of (data_type_definitions E) name = None \<longrightarrow>
        check_attribute_value_is_valid E name v req_type_id = Inl KeyError)
   \<and> (declared_kind E req_type_id name = Inr deftype
        \<and> map_of ATTR_VALUE_DEFAULT_MAP deftype = Some cls
        \<and> (deftype = ''Enum'' \<longrightarrow> map_of (data_type_definitions E) name = Some options) \<longrightarrow>
        check_attribute_value_is_valid E name v req_type_id =
          (let key = (if deftype = ''Enum'' then ''values'' else ''value'') in
           if \<not> isinstance v cls \<or> (deftype = ''Enum'' \<and> set (literals v) \<inter> set options = {})
           then Inl (InvalidFieldValue key v name)
           else Inr (deftype, key, v)))"
proof (intro conjI impI)
  assume a: "declared_kind E req_type_id name = Inl e"
  show "e = KeyError"
    using declared_kind_error[OF a] .
  show "check_attribute_value_is_valid E name v req_type_id = Inl KeyError"
    using a declared_kind_error[OF a] by (simp add: check_attribute_value_is_valid_def)
next
  assume "declared_kind E req_type_id name = Inr deftype
        \<and> map_of ATTR_VALUE_DEFAULT_MAP deftype = None"
  then show "check_attribute_value_is_valid E name v req_type_id = Inl KeyError"
    by (simp add: check_attribute_value_is_valid_def)
next
  assume "declared_kind E req_type_id name = Inr ''Enum''
        \<and> map_of (data_type_definitions E) name = None"
  then show "check_attribute_value_is_valid E name v req_type_id = Inl KeyError"
    by (simp add: check_attribute_value_is_valid_def ATTR_VALUE_DEFAULT_MAP_def)
next
  assume "declared_kind E req_type_id name = Inr deftype
        \<and> map_of ATTR_VALUE_DEFAULT_MAP deftype = Some cls
        \<and> (deftype = ''Enum'' \<longrightarrow> map_of (data_type_definitions E) name = Some options)"
  then show "check_attribute_value_is_valid E name v req_type_id =
          (let key = (if deftype = ''Enum'' then ''values'' else ''value'') in
           if \<not> isinstance v cls \<or> (deftype = ''Enum'' \<and> set (literals v) \<inter> set options = {})
           then Inl (InvalidFieldValue key v name)
           else Inr (deftype, key, v))"
    by (auto simp: check_attribute_value_is_valid_def Let_def list_ex_iff)
qed

theorem check_attribute_value_is_valid_raises_exactly_witness:
  "declared_kind env_status ''RT'' ''Status'' = Inr ''Enum''
   \<and> map_of ATTR_VALUE_DEFAULT_MAP ''Enum'' = Some TList
   \<and> map_of (data_type_definitions env_status) ''Status'' = Some [''Open'', ''Closed'']
   \<and> check_attribute_value_is_valid env_status ''Status'' (RList [''Bogus'']) ''RT''
       = Inl (InvalidFieldValue ''values'' (RList [''Bogus'']) ''Status'')
   \<and> check_attribute_value_is_valid env_status ''Status'' (RStr ''Open'') ''RT''
       = Inl (InvalidFieldValue ''values'' (RStr ''Open'') ''Status'')
   \<and> check_attribute_value_is_valid env_status ''Status'' (RList [''Open'', ''Bogus'']) ''RT''
       = Inr (''Enum'', ''values'', RList [''Open'', ''Bogus''])
   \<and> declared_kind env_status ''RT'' ''Colour'' = Inl KeyError
   \<and> check_attribute_value_is_valid env_status ''Colour'' (RStr ''red'') ''RT'' = Inl KeyError
   \<and> declared_kind env_no_options ''RT'' ''Status'' = Inr ''Enum''
   \<and> map_of (data_type_definitions env_no_options) ''Status'' = None
   \<and> check_attribute_value_is_valid env_no_options ''Status'' (RList [''Open'']) ''RT''
       = Inl KeyError"
proof -
  have k: "declared_kind env_status ''RT'' ''Status'' = Inr ''Enum''"
    by code_simp
  have c: "map_of ATTR_VALUE_DEFAULT_MAP ''Enum'' = Some TList"
    by code_simp
  have d: "map_of (data_type_definitions env_status) ''Status'' = Some [''Open'', ''Closed'']"
    by code_simp
  have o: "''Enum'' = ''Enum'' \<longrightarrow>
           map_of (data_type_definitions env_status) ''Status'' = Some [''Open'', ''Closed'']"
    using d by simp
  have u: "declared_kind env_status ''RT'' ''Colour'' = Inl KeyError"
    by code_simp
  have k2: "declared_kind env_no_options ''RT'' ''Status'' = Inr ''Enum''"
    by code_simp
  have d2: "map_of (data_type_definitions env_no_options) ''Status'' = None"
    by code_simp
  note main = check_attribute_value_is_valid_raises_exactly
  have spec: "check_attribute_value_is_valid env_status ''Status'' v ''RT'' =
          (let key = (if ''Enum'' = ''Enum'' then ''values'' else ''value'') in
           if \<not> isinstance v TList
              \<or> (''Enum'' = ''Enum'' \<and> set (literals v) \<inter> set [''Open'', ''Closed''] = {})
           then Inl (InvalidFieldValue key v ''Status'')
           else Inr (''Enum'', key, v))" for v
    by (rule main[THEN conjunct2, THEN conjunct2, THEN conjunct2, THEN mp], intro conjI,
        rule k, rule c, rule o)
  have undeclared:
    "check_attribute_value_is_valid env_status ''Colour'' (RStr ''red'') ''RT'' = Inl KeyError"
    using main[THEN conjunct1, THEN mp, OF u] by simp
  have no_options:
    "check_attribute_value_is_valid env_no_options ''Status'' (RList [''Open'']) ''RT''
       = Inl KeyError"
    by (rule main[THEN conjunct2, THEN conjunct2, THEN conjunct1, THEN mp], intro conjI,
        rule k2, rule d2)
  show ?thesis
    using k c d u k2 d2 undeclared no_options spec[of "RList [''Bogus'']"] spec[of "RStr ''Open''"]
      spec[of "RList [''Open'', ''Bogus'']"]
    by simp
qed

section \<open>Properties of the attribute blacklist\<close>

lemma create_attributes_skip:
  "create_attributes E item (pre @ (name, RList []) # post) acc st =
   create_attributes E item (pre @ post) acc st"
proof (induction pre arbitrary: acc st)
  case Nil
  show ?case by (cases acc) simp
next
  case (Cons p pre)
  obtain n v where p: "p = (n, v)" by (cases p)
  obtain attributes folder_hint where acc: "acc = (attributes, folder_hint)" by (cases acc)
  show ?case unfolding p acc
    by (simp add: Cons.IH split: option.splits sum.splits)
qed

lemma mod_attributes_skip:
  "mod_attributes E req (pre @ (name, RList []) # post) acc =
   mod_attributes E req (pre @ post) acc"
proof (induction pre arbitrary: acc)
  case Nil
  show ?case by (cases acc) simp
next
  case (Cons p pre)
  obtain n v where p: "p = (n, v)" by (cases p)
  obtain cs ms where acc: "acc = (cs, ms)" by (cases acc)
  show ?case unfolding p acc
    by (simp add: Cons.IH split: sum.splits attr_action.splits)
qed

text \<open>
  Claim C10. \<^verbatim>\<open>_blacklisted\<close> is true of an empty list under every attribute name, and
  an attribute of the snapshot whose value is an empty list is skipped by the attribute
  loop of the creation path and by that of the modification path: wherever it stands among
  the attributes, each loop ends with the payloads, modifications, log and outcome it has
  without that attribute.
\<close>

theorem empty_list_attribute_is_skipped:
  "blacklisted name (RList [])
   \<and> create_attributes E item (pre @ (name, RList []) # post) acc st
       = create_attributes E item (pre @ post) acc st
   \<and> mod_attributes E req (pre @ (name, RList []) # post) acc'
       = mod_attributes E req (pre @ post) acc'"
  by (simp add: create_attributes_skip mod_attributes_skip)

section \<open>Runs of the calculator on the example models\<close>

text \<open>
  Claim C1 (deletion and relocation exclude each other) fails on the code. The module has
  no types folder; the requirement \<open>R\<close> lives at the root of the module and the
  snapshot has it in the folder \<open>F\<close>. The action of \<open>F\<close> takes \<open>R\<close> into
  \<^verbatim>\<open>extend.requirements\<close>, and the module action still deletes \<open>R\<close>:
  \<^verbatim>\<open>req_delete_actions\<close> filters the children of the module against \<open>visited\<close>, which
  holds the top-level items only, and does not consult \<^verbatim>\<open>_location_changed\<close> as the
  deletions of a folder do.
\<close>

theorem moved_requirement_is_extended_and_deleted:
  "reqt_folder env_moved = None
   \<and> calculate_change env_moved =
     Inr ([[(''parent'', VRef ''u-F''),
            (''extend'', VDict [(''requirements'', VList [VRef ''u-R''])])],
           [(''parent'', VRef ''u-mod''),
            (''extend'', VDict [(''requirement_types_folders'',
               VList [VDict [(''long_name'', VStr ''Types''),
                             (''identifier'', VStr ''-2''),
                             (''data_type_definitions'', VList []),
                             (''requirement_types'',
                                VList [VDict [(''identifier'', VStr ''RT''),
                                              (''long_name'', VStr ''Requirement''),
                                              (''promise_id'', VStr ''RequirementType RT''),
                                              (''attribute_definitions'', VList [])]])]])]),
            (''delete'', VDict [(''requirements'', VList [VRef ''u-R''])])]],
          [])
   \<and> (case calculate_change env_moved of
         Inl e \<Rightarrow> False
       | Inr (actions, lg) \<Rightarrow>
           VRef ''u-R'' \<in> set (concat (map (slot_refs ''extend'') actions))
           \<and> VRef ''u-R'' \<in> set (concat (map (slot_refs ''delete'') actions))
           \<and> \<not> exclusive actions)"
  by code_simp

text \<open>
  Claim C5 (a deletion action that retraction leaves void is removed from the list) fails
  on the code. The module has no types folder. The action of the folder \<open>F\<close> proposes to
  delete \<open>R1\<close> and \<open>G\<close> and is entered in the ledger under both uuids. Both deletions
  are retracted, which leaves the action with the key \<^verbatim>\<open>parent\<close> alone. The loop over
  \<^verbatim>\<open>self._req_deletions.values()\<close> meets the action twice: it removes it from
  \<^verbatim>\<open>self.actions\<close> the first time, and the second \<^verbatim>\<open>self.actions.remove(action)\<close>
  raises ValueError. The run ends with that exception and produces no list.
\<close>

theorem void_deletion_action_raises_on_removal:
  "reqt_folder env_emptied = None
   \<and> (case type_system_actions env_emptied of
         Inl e \<Rightarrow> False
       | Inr (base, actions) \<Rightarrow>
           (case items_loop env_emptied (items (tracker env_emptied)) (base, [], actions)
                   initial_state of
              Inl e \<Rightarrow> False
            | Inr ((base1, visited, actions1), st) \<Rightarrow>
                actions1 = [Ptr 0]
                \<and> req_deletions st = [(''u-R1'', 0), (''u-G'', 0)]
                \<and> heap_get (heap st) 0 = [(''parent'', VRef ''u-F'')]
                \<and> only_parent (heap_get (heap st) 0)
                \<and> list_remove st (heap_get (heap st) 0) actions1 = Inr []
                \<and> list_remove st (heap_get (heap st) 0) [] = Inl ValueError
                \<and> prune_void st (map snd (req_deletions st)) actions1 = Inl ValueError))
   \<and> calculate_change env_emptied = Inl ValueError"
  by code_simp

text \<open>
  Claim C8 (the deletion action of \<^verbatim>\<open>requirement_type_delete_actions\<close> has the shape of
  a \<^verbatim>\<open>ChangeAction\<close>) fails on the code: the function returns no action at all. Its first
  statement builds the reference to the parent from the types folder itself instead of
  from its uuid, and \<^verbatim>\<open>decl.UUIDReference\<close> raises ValueError. \<^verbatim>\<open>calculate_change\<close>
  calls the function whenever the module has a types folder, so every such run ends with
  ValueError; here the folder holds the requirement type \<open>RT\<close>, which the snapshot does
  not declare and which the action should delete.
\<close>

theorem requirement_type_deletion_raises:
  "requirement_type_delete_actions E tf = Inl ValueError
   \<and> reqt_folder env_no_type = Some live_types_folder
   \<and> yield_data_type_definition_mod_actions env_no_type live_types_folder = Inr []
   \<and> yield_requirement_type_mod_actions env_no_type live_types_folder = Inr []
   \<and> requirement_type_delete_actions env_no_type live_types_folder = Inl ValueError
   \<and> calculate_change env_no_type = Inl ValueError"
proof -
  have "requirement_type_delete_actions E tf = Inl ValueError"
    by (simp add: requirement_type_delete_actions_def)
  moreover have "reqt_folder env_no_type = Some live_types_folder
   \<and> yield_data_type_definition_mod_actions env_no_type live_types_folder = Inr []
   \<and> yield_requirement_type_mod_actions env_no_type live_types_folder = Inr []
   \<and> requirement_type_delete_actions env_no_type live_types_folder = Inl ValueError
   \<and> calculate_change env_no_type = Inl ValueError"
    by code_simp
  ultimately show ?thesis by simp
qed

section \<open>Items without a usable requirement type\<close>










lemma isl_map_sum_id [simp]: "isl (map_sum id f x) = isl x"
  by (cases x) auto








end
